theory Spec2Isabelle
  imports Complex_Main "HOL-Library.Word" "HOL-Library.AList"
    "HOL-Library.Char_ord" "HOL-Library.List_Lexorder"
begin

unbundle bit_operations_syntax

section \<open>Map art converter and gradient tool: a shallow embedding\<close>

text \<open>
  The two scripts are embedded function by function. A JavaScript number is a real
  number; there is no NaN and no infinity other than the explicit initial \<open>Infinity\<close>
  of the two scans, which is the value \<open>None\<close> of a \<open>real option\<close>. The distance
  \<open>distLab\<close>, whose results the scans compare, is computed as the program computes it:
  every subtraction, product, sum and square root is rounded to the nearest IEEE 754
  double, ties to even (\<open>fl64\<close>; overflow does not occur on Lab colours and is left
  out). The colour conversion, the interpolation and the penalty are kept in exact
  arithmetic. Bytes of the pixel buffer are \<open>8 word\<close>, the cache
  key is a \<open>32 word\<close>. Identifiers are strings. The catalogue \<open>BLOCKS\<close> is the parsed JSON
  object in key order, an association list whose \<open>map fst\<close> is \<open>Object.keys\<close>; the
  \<open>counts\<close> object is an association list in insertion order, with identifiers assumed
  not to be names inherited from \<open>Object.prototype\<close>. DOM reads (\<open>elMode.value\<close>,
  checkboxes) and the outcome of network requests (whether a texture exists, whether an
  image loads) are parameters of the functions that use them.
\<close>

subsection \<open>Lab conversion (sRGB, linear RGB, XYZ, Lab D65)\<close>

type_synonym lab = "real \<times> real \<times> real"

definition srgbToLinear :: "real \<Rightarrow> real" where
  "srgbToLinear u = (if u \<le> 0.04045 then u / 12.92 else ((u + 0.055) / 1.055) powr 2.4)"

definition rgbToXyz :: "real \<Rightarrow> real \<Rightarrow> real \<Rightarrow> real \<times> real \<times> real" where
  "rgbToXyz r g b =
     (let x = r * 0.4124564 + g * 0.3575761 + b * 0.1804375;
          y = r * 0.2126729 + g * 0.7151522 + b * 0.0721750;
          z = r * 0.0193339 + g * 0.1191920 + b * 0.9503041
      in (x, y, z))"

definition fLab :: "real \<Rightarrow> real" where
  "fLab t =
     (let d = 6 / 29;
          d3 = d * d * d
      in if t > d3 then root 3 t else t / (3 * d * d) + 4 / 29)"

definition xyzToLab :: "real \<Rightarrow> real \<Rightarrow> real \<Rightarrow> lab" where
  "xyzToLab x y z =
     (let Xn = 0.95047; Yn = 1.0; Zn = 1.08883;
          fx = fLab (x / Xn); fy = fLab (y / Yn); fz = fLab (z / Zn);
          L = 116 * fy - 16;
          a = 500 * (fx - fy);
          b = 200 * (fy - fz)
      in (L, a, b))"

definition rgbToLab255 :: "8 word \<Rightarrow> 8 word \<Rightarrow> 8 word \<Rightarrow> lab" where
  "rgbToLab255 R G B =
     (let r = srgbToLinear (real (unat R) / 255);
          g = srgbToLinear (real (unat G) / 255);
          b = srgbToLinear (real (unat B) / 255)
      in case rgbToXyz r g b of (x, y, z) \<Rightarrow> xyzToLab x y z)"

text \<open>
  Rounding to the nearest double. \<open>roundTiesToEven\<close> rounds a real to the nearest integer,
  a tie to the even one. \<open>fl64\<close> scales by the unit in the last place of the binade of
  its argument (53 significant bits, least exponent \<open>-1022\<close>, below it the fixed unit
  \<open>2 powr -1074\<close> of the subnormal numbers) and rounds the scaled magnitude.
\<close>

definition roundTiesToEven :: "real \<Rightarrow> int" where
  "roundTiesToEven r =
     (let f = \<lfloor>r\<rfloor>
      in if r - of_int f < 1 / 2 then f
         else if 1 / 2 < r - of_int f then f + 1
         else if even f then f else f + 1)"

definition fl64 :: "real \<Rightarrow> real" where
  "fl64 x =
     (if x = 0 then 0
      else
        let e = max \<lfloor>log 2 \<bar>x\<bar>\<rfloor> (- 1022);
            u = 2 powr (of_int e - 52)
        in sgn x * of_int (roundTiesToEven (\<bar>x\<bar> / u)) * u)"

text \<open>
  \<open>distLab\<close>: three differences, three products, the two sums of
  \<open>dL*dL + da*da + db*db\<close> from left to right, and \<open>Math.sqrt\<close>, which returns the
  double nearest to the square root; each result is rounded.
\<close>

fun distLab :: "lab \<Rightarrow> lab \<Rightarrow> real" where
  "distLab (a0, a1, a2) (b0, b1, b2) =
     (let dL = fl64 (a0 - b0); da = fl64 (a1 - b1); db = fl64 (a2 - b2)
      in fl64 (sqrt (fl64 (fl64 (fl64 (dL * dL) + fl64 (da * da)) + fl64 (db * db)))))"

text \<open>
  The Euclidean distance in Lab space itself, without rounding: the distance the
  specification speaks of, written from its words.
\<close>

fun euclidLab :: "lab \<Rightarrow> lab \<Rightarrow> real" where
  "euclidLab (a0, a1, a2) (b0, b1, b2) =
     sqrt ((a0 - b0) * (a0 - b0) + (a1 - b1) * (a1 - b1) + (a2 - b2) * (a2 - b2))"

fun lerpLab :: "lab \<Rightarrow> lab \<Rightarrow> real \<Rightarrow> lab" where
  "lerpLab (A0, A1, A2) (B0, B1, B2) t =
     ((1 - t) * A0 + t * B0, (1 - t) * A1 + t * B1, (1 - t) * A2 + t * B2)"

subsection \<open>The catalogue\<close>

record block_tags =
  transparent :: bool
  noisy :: bool
  creative_only :: bool

record block_flags =
  full_block :: bool
  building_block :: bool
  plantlike :: bool
  redstone :: bool
  ore :: bool

record block =
  name :: "string option"
  avg_lab :: "lab option"
  tags :: "block_tags option"
  tag_flags :: "block_flags option"

text \<open>\<open>b.tags || {}\<close> and \<open>b.tag_flags || {}\<close>: a missing object reads every key as falsy.\<close>

definition tagsOf :: "block \<Rightarrow> block_tags" where
  "tagsOf b = (case tags b of
                 None \<Rightarrow> \<lparr>transparent = False, noisy = False, creative_only = False\<rparr>
               | Some t \<Rightarrow> t)"

definition flagsOf :: "block \<Rightarrow> block_flags" where
  "flagsOf b = (case tag_flags b of
                  None \<Rightarrow> \<lparr>full_block = False, building_block = False, plantlike = False,
                           redstone = False, ore = False\<rparr>
                | Some f \<Rightarrow> f)"

type_synonym catalog = "(string \<times> block) list"

subsection \<open>Palette building\<close>

record entry =
  entry_id :: string
  entry_name :: string
  entry_lab :: lab
  entry_tags :: block_tags
  entry_flags :: block_flags

text \<open>\<open>elPalette?.value || "full_solid"\<close>: a missing select or an empty value is the default.\<close>

definition paletteMode :: "string option \<Rightarrow> string" where
  "paletteMode v = (case v of None \<Rightarrow> ''full_solid''
                    | Some s \<Rightarrow> if s = [] then ''full_solid'' else s)"

text \<open>
  The body of the loop over \<open>Object.keys(BLOCKS)\<close>: \<open>None\<close> is a \<open>continue\<close>, \<open>Some e\<close> the
  object pushed onto \<open>arr\<close>. \<open>topTextureExists\<close> is the parameter of the same name.
\<close>

definition paletteEntry ::
  "(string \<Rightarrow> bool) \<Rightarrow> catalog \<Rightarrow> string \<Rightarrow> bool \<Rightarrow> string \<Rightarrow> entry option" where
  "paletteEntry topTextureExists BLOCKS mode includeCreative i =
     (case map_of BLOCKS i of
        None \<Rightarrow> None
      | Some b \<Rightarrow>
          (case avg_lab b of
             None \<Rightarrow> None
           | Some c \<Rightarrow>
               (let tgs = tagsOf b; flgs = flagsOf b in
                if \<not> includeCreative \<and> creative_only tgs then None
                else if mode = ''full_solid'' \<and>
                        (\<not> full_block flgs \<or> transparent tgs \<or> noisy tgs) then None
                else if mode \<noteq> ''full_solid'' \<and> mode = ''all_solid'' \<and>
                        (\<not> full_block flgs \<or> transparent tgs) then None
                else if \<not> topTextureExists i then None
                else Some \<lparr>entry_id = i,
                           entry_name = (case name b of None \<Rightarrow> i
                                         | Some s \<Rightarrow> if s = [] then i else s),
                           entry_lab = c, entry_tags = tgs, entry_flags = flgs\<rparr>)))"

text \<open>
  \<open>arr.sort((a,b) => a.id.localeCompare(b.id))\<close>: a stable sort by the collation key of
  the identifier. The collation of the host locale is the parameter \<open>collate\<close>.
\<close>

definition buildPalette ::
  "(string \<Rightarrow> 'k::linorder) \<Rightarrow> (string \<Rightarrow> bool) \<Rightarrow> catalog \<Rightarrow> string option \<Rightarrow> bool
     \<Rightarrow> entry list" where
  "buildPalette collate topTextureExists BLOCKS paletteSel includeCreative =
     (let mode = paletteMode paletteSel;
          ids = map fst BLOCKS;
          arr = List.map_filter
                  (paletteEntry topTextureExists BLOCKS mode includeCreative) ids
      in sort_key (\<lambda>e. collate (entry_id e)) arr)"

subsection \<open>Matching\<close>

text \<open>\<open>d < bestD\<close> where \<open>bestD\<close> starts as \<open>Infinity\<close> (\<open>None\<close>).\<close>

fun belowBest :: "real \<Rightarrow> real option \<Rightarrow> bool" where
  "belowBest d None = True"
| "belowBest d (Some bestD) = (d < bestD)"

fun nearestScan :: "lab \<Rightarrow> entry list \<Rightarrow> entry option \<times> real option
                      \<Rightarrow> entry option \<times> real option" where
  "nearestScan c [] st = st"
| "nearestScan c (p # ps) (best, bestD) =
     (let d = distLab c (entry_lab p)
      in if belowBest d bestD then nearestScan c ps (Some p, Some d)
         else nearestScan c ps (best, bestD))"

definition findNearestBlock :: "entry list \<Rightarrow> lab \<Rightarrow> entry option" where
  "findNearestBlock PALETTE c = fst (nearestScan c PALETTE (None, None))"

subsection \<open>Generate: the matching pass\<close>

datatype js_error = PaletteIsEmpty | TypeError

type_synonym pixel = "8 word \<times> 8 word \<times> 8 word \<times> 8 word"

text \<open>\<open>data[i+3]\<close> of the quadruple that starts at \<open>i\<close>.\<close>

definition alpha :: "pixel \<Rightarrow> 8 word" where
  "alpha px = (case px of (r, g, b, a) \<Rightarrow> a)"

text \<open>\<open>(r<<16) | (g<<8) | b\<close> on 32-bit integers.\<close>

definition rgbKey :: "8 word \<Rightarrow> 8 word \<Rightarrow> 8 word \<Rightarrow> 32 word" where
  "rgbKey r g b = push_bit 16 (ucast r) OR push_bit 8 (ucast g) OR ucast b"

text \<open>\<open>counts[id] = (counts[id] || 0) + 1\<close>: a new key is appended, an old one updated in place.\<close>

definition countsIncrement :: "string \<Rightarrow> (string \<times> nat) list \<Rightarrow> (string \<times> nat) list" where
  "countsIncrement i cnts =
     AList.update i ((case map_of cnts i of None \<Rightarrow> 0 | Some n \<Rightarrow> n) + 1) cnts"

record gen_state =
  counts :: "(string \<times> nat) list"
  assign :: "string option list"
  cache :: "32 word \<rightharpoonup> entry"

text \<open>
  The loop over the pixel buffer, one RGBA quadruple per step; \<open>assign[p++] = v\<close> with
  \<open>p\<close> counting from 0 appends. A \<open>null\<close> pick makes \<open>pick.id\<close> raise a TypeError, which
  the enclosing \<open>try\<close> turns into an error status.
\<close>

fun generateLoop :: "entry list \<Rightarrow> pixel list \<Rightarrow> gen_state \<Rightarrow> js_error + gen_state" where
  "generateLoop PALETTE [] s = Inr s"
| "generateLoop PALETTE ((r, g, b, a) # data) s =
     (if a = 0 then generateLoop PALETTE data (s\<lparr>assign := assign s @ [None]\<rparr>)
      else
        let key = rgbKey r g b in
        case (case cache s key of
                Some pick \<Rightarrow> (Some pick, cache s)
              | None \<Rightarrow>
                  (let pick = findNearestBlock PALETTE (rgbToLab255 r g b)
                   in (pick, (cache s)(key := pick)))) of
          (None, cache') \<Rightarrow> Inl TypeError
        | (Some pick, cache') \<Rightarrow>
            generateLoop PALETTE data
              \<lparr>counts = countsIncrement (entry_id pick) (counts s),
               assign = assign s @ [Some (entry_id pick)],
               cache = cache'\<rparr>)"

text \<open>
  \<open>generate\<close> from the palette guard on (the guards on the catalogue, the image and the
  canvas read the page and are left out): an empty palette stops before any pixel is
  read; otherwise the loop starts from empty \<open>counts\<close>, an empty assignment and a fresh
  cache, which no other function reads. \<open>data\<close> is the buffer of
  \<open>getImageData(0, 0, size, size)\<close>, one quadruple per pixel.
\<close>

definition generate :: "entry list \<Rightarrow> pixel list \<Rightarrow> js_error + gen_state" where
  "generate PALETTE data =
     (if PALETTE = [] then Inl PaletteIsEmpty
      else generateLoop PALETTE data \<lparr>counts = [], assign = [], cache = Map.empty\<rparr>)"

text \<open>
  The pass the memoization contract is measured against, written from the specification's
  words and not from the code: no cache, the nearest match recomputed for every pixel that
  is not transparent.
\<close>

fun uncachedPass ::
  "entry list \<Rightarrow> pixel list \<Rightarrow> (string \<times> nat) list \<times> string option list
     \<Rightarrow> js_error + (string \<times> nat) list \<times> string option list" where
  "uncachedPass PALETTE [] (cnts, asg) = Inr (cnts, asg)"
| "uncachedPass PALETTE ((r, g, b, a) # data) (cnts, asg) =
     (if a = 0 then uncachedPass PALETTE data (cnts, asg @ [None])
      else
        (case findNearestBlock PALETTE (rgbToLab255 r g b) of
           None \<Rightarrow> Inl TypeError
         | Some pick \<Rightarrow>
             uncachedPass PALETTE data
               (countsIncrement (entry_id pick) cnts, asg @ [Some (entry_id pick)])))"

subsection \<open>Render mosaic\<close>

definition TILE :: nat where
  "TILE = 16"

record 'img draw_call =
  image :: 'img
  dx :: nat
  dy :: nat

text \<open>
  \<open>loadTextureForBlock\<close>: a cached image is reused; otherwise the image is requested and
  cached only when it loads (\<open>fetchImage\<close> is the outcome of the request).
\<close>

definition loadTextureForBlock ::
  "(string \<Rightarrow> 'img option) \<Rightarrow> (string \<rightharpoonup> 'img) \<Rightarrow> string \<Rightarrow> (string \<rightharpoonup> 'img)" where
  "loadTextureForBlock fetchImage TEX_CACHE i =
     (case TEX_CACHE i of
        Some img \<Rightarrow> TEX_CACHE
      | None \<Rightarrow> (case fetchImage i of
                   Some img \<Rightarrow> TEX_CACHE(i \<mapsto> img)
                 | None \<Rightarrow> TEX_CACHE))"

text \<open>\<open>assign[p]\<close>; a read past the end is \<open>undefined\<close>, falsy like \<open>null\<close>.\<close>

definition cellAt :: "string option list \<Rightarrow> nat \<Rightarrow> string option" where
  "cellAt asg p = (if p < length asg then asg ! p else None)"

text \<open>\<open>Boolean(id)\<close>: \<open>null\<close> and the empty string are falsy.\<close>

definition truthyId :: "string option \<Rightarrow> string option" where
  "truthyId c = (case c of None \<Rightarrow> None | Some i \<Rightarrow> if i = [] then None else Some i)"

text \<open>The body of the inner loop: \<open>None\<close> is a \<open>continue\<close>, \<open>Some d\<close> a \<open>drawImage\<close> call.\<close>

definition drawCell ::
  "(string \<rightharpoonup> 'img) \<Rightarrow> string option \<Rightarrow> nat \<Rightarrow> nat \<Rightarrow> 'img draw_call option" where
  "drawCell TEX_CACHE c x y =
     (case truthyId c of
        None \<Rightarrow> None
      | Some i \<Rightarrow> (case TEX_CACHE i of
                    None \<Rightarrow> None
                  | Some tex \<Rightarrow> Some \<lparr>image = tex, dx = x * TILE, dy = y * TILE\<rparr>))"

text \<open>
  \<open>Array.from(new Set(assign)).filter(Boolean)\<close> keeps the first occurrence of every
  identifier; the loads of \<open>Promise.all\<close> are folded over that list. The two nested
  loops read the cells in row-major order, \<open>p = y * size + x\<close>.
\<close>

definition renderTextureMosaic ::
  "(string \<Rightarrow> 'img option) \<Rightarrow> (string \<rightharpoonup> 'img) \<Rightarrow> string option list \<Rightarrow> nat
     \<Rightarrow> (string \<rightharpoonup> 'img) \<times> 'img draw_call list" where
  "renderTextureMosaic fetchImage TEX_CACHE asg sizeN =
     (let used = List.map_filter truthyId (rev (remdups (rev asg)));
          TEX_CACHE' = foldl (loadTextureForBlock fetchImage) TEX_CACHE used;
          draws = concat (map (\<lambda>y. List.map_filter
                                       (\<lambda>x. drawCell TEX_CACHE' (cellAt asg (y * sizeN + x)) x y)
                                       [0..<sizeN])
                              [0..<sizeN])
      in (TEX_CACHE', draws))"

text \<open>
  The number of unresolved cells of a grid: cells that hold an identifier for which the
  inner loop draws nothing, because the identifier is falsy or has no image in the cache.
\<close>

definition unresolvedCells :: "(string \<rightharpoonup> 'img) \<Rightarrow> string option list \<Rightarrow> nat" where
  "unresolvedCells TEX_CACHE asg =
     length (filter (\<lambda>c. case c of None \<Rightarrow> False
                          | Some i \<Rightarrow> i = [] \<or> TEX_CACHE i = None) asg)"

subsection \<open>Gradient tool: scoring and picking\<close>

definition preferencePenalty :: "block \<Rightarrow> string \<Rightarrow> bool \<Rightarrow> real" where
  "preferencePenalty blk mode preferBuilding =
     (let f = flagsOf blk; t = tagsOf blk; p = 0 in
      if mode = ''anything'' then 0
      else
        let p = (if preferBuilding \<and> \<not> building_block f then p + 6 else p);
            p = (if plantlike f then p + 5 else p);
            p = (if redstone f then p + 5 else p);
            p = (if ore f then p + 4 else p);
            p = (if transparent t then p + 4 else p);
            p = (if noisy t then p + 4 else p);
            p = (if mode \<noteq> ''creative'' \<and> creative_only t then p + 8 else p)
        in p)"

text \<open>
  The scan over \<open>CANDIDATE_IDS\<close> for one target. \<open>BLOCKS[id].avg_lab\<close> on an identifier
  without a catalogue entry, and \<open>distLab\<close> on a missing colour, raise a TypeError.
  \<open>mode\<close> is \<open>elMode.value\<close>, \<open>preferBuilding\<close> is \<open>elPreferBuilding.checked\<close>.
\<close>

fun candidateScan ::
  "catalog \<Rightarrow> string \<Rightarrow> bool \<Rightarrow> bool \<Rightarrow> string set \<Rightarrow> lab \<Rightarrow> string list
     \<Rightarrow> string option \<times> real option \<Rightarrow> js_error + (string option \<times> real option)" where
  "candidateScan BLOCKS mode preferBuilding avoidDupes used T [] st = Inr st"
| "candidateScan BLOCKS mode preferBuilding avoidDupes used T (i # ids) (bestId, bestScore) =
     (if avoidDupes \<and> i \<in> used
      then candidateScan BLOCKS mode preferBuilding avoidDupes used T ids (bestId, bestScore)
      else
        (case map_of BLOCKS i of
           None \<Rightarrow> Inl TypeError
         | Some b \<Rightarrow>
             (case avg_lab b of
                None \<Rightarrow> Inl TypeError
              | Some c \<Rightarrow>
                  (let score = distLab c T + preferencePenalty b mode preferBuilding
                   in if belowBest score bestScore
                      then candidateScan BLOCKS mode preferBuilding avoidDupes used T ids
                             (Some i, Some score)
                      else candidateScan BLOCKS mode preferBuilding avoidDupes used T ids
                             (bestId, bestScore)))))"

text \<open>The loop over the targets; \<open>if(bestId)\<close> skips \<open>null\<close> and the empty string.\<close>

fun pickLoop ::
  "catalog \<Rightarrow> string list \<Rightarrow> string \<Rightarrow> bool \<Rightarrow> bool \<Rightarrow> lab list
     \<Rightarrow> string set \<times> string list \<Rightarrow> js_error + string list" where
  "pickLoop BLOCKS CANDIDATE_IDS mode preferBuilding avoidDupes [] (used, picks) = Inr picks"
| "pickLoop BLOCKS CANDIDATE_IDS mode preferBuilding avoidDupes (T # targets) (used, picks) =
     (case candidateScan BLOCKS mode preferBuilding avoidDupes used T CANDIDATE_IDS
             (None, None) of
        Inl e \<Rightarrow> Inl e
      | Inr (bestId, bestScore) \<Rightarrow>
          (case truthyId bestId of
             None \<Rightarrow> pickLoop BLOCKS CANDIDATE_IDS mode preferBuilding avoidDupes targets
                       (used, picks)
           | Some i \<Rightarrow> pickLoop BLOCKS CANDIDATE_IDS mode preferBuilding avoidDupes targets
                         (insert i used, picks @ [i])))"

text \<open>\<open>BLOCKS[id]?.avg_lab\<close>: \<open>None\<close> when the identifier or its colour is missing.\<close>

definition labOf :: "catalog \<Rightarrow> string \<Rightarrow> lab option" where
  "labOf BLOCKS i = (case map_of BLOCKS i of None \<Rightarrow> None | Some b \<Rightarrow> avg_lab b)"

definition pickTransitions ::
  "catalog \<Rightarrow> string list \<Rightarrow> string \<Rightarrow> bool \<Rightarrow> string \<Rightarrow> string \<Rightarrow> nat \<Rightarrow> bool
     \<Rightarrow> js_error + string list" where
  "pickTransitions BLOCKS CANDIDATE_IDS mode preferBuilding idA idB n avoidDupes =
     (case labOf BLOCKS idA of
        None \<Rightarrow> Inr []
      | Some A \<Rightarrow>
          (case labOf BLOCKS idB of
             None \<Rightarrow> Inr []
           | Some B \<Rightarrow>
               (let targets = map (\<lambda>i. lerpLab A B (real i / real (n + 1))) [1..<Suc n]
                in pickLoop BLOCKS CANDIDATE_IDS mode preferBuilding avoidDupes targets
                     ({idA, idB}, []))))"

subsection \<open>Example data\<close>

text \<open>
  A small catalogue (the three entries of the specification's scenario, a black block, a
  transparent full block, a block that is no full block and an ore), a texture check that
  always succeeds, and code-point order as collation.
\<close>

definition solidFlags :: block_flags where
  "solidFlags = \<lparr>full_block = True, building_block = True, plantlike = False,
                  redstone = False, ore = False\<rparr>"

definition glassTags :: block_tags where
  "glassTags = \<lparr>transparent = True, noisy = False, creative_only = False\<rparr>"

definition stoneBlock :: block where
  "stoneBlock = \<lparr>name = Some ''Stone'', avg_lab = Some (60, 0, 0), tags = None,
                  tag_flags = Some solidFlags\<rparr>"

definition snowBlock :: block where
  "snowBlock = \<lparr>name = Some ''Snow'', avg_lab = Some (95, 0, 0), tags = None,
                 tag_flags = Some solidFlags\<rparr>"

definition coalBlock :: block where
  "coalBlock = \<lparr>name = Some ''Coal'', avg_lab = Some (5, 0, 0), tags = None,
                 tag_flags = Some solidFlags\<rparr>"

definition obsidianBlock :: block where
  "obsidianBlock = \<lparr>name = Some ''Obsidian'', avg_lab = Some (0, 0, 0), tags = None,
                     tag_flags = Some solidFlags\<rparr>"

definition glassBlock :: block where
  "glassBlock = \<lparr>name = Some ''Glass'', avg_lab = Some (80, 0, 0), tags = Some glassTags,
                  tag_flags = Some solidFlags\<rparr>"

definition torchBlock :: block where
  "torchBlock = \<lparr>name = Some ''Torch'', avg_lab = Some (70, 10, 50), tags = None,
                  tag_flags = None\<rparr>"

definition redstoneOreBlock :: block where
  "redstoneOreBlock =
     \<lparr>name = Some ''Redstone Ore'', avg_lab = Some (40, 30, 20), tags = None,
      tag_flags = Some \<lparr>full_block = True, building_block = False, plantlike = False,
                        redstone = True, ore = True\<rparr>\<rparr>"

definition barrierBlock :: block where
  "barrierBlock = \<lparr>name = Some ''Barrier'', avg_lab = None, tags = None,
                    tag_flags = Some solidFlags\<rparr>"

text \<open>A catalogue in which one block has no average colour.\<close>

definition colourlessBlocks :: catalog where
  "colourlessBlocks = [(''stone'', stoneBlock), (''coal'', coalBlock), (''barrier'', barrierBlock)]"

definition exampleBlocks :: catalog where
  "exampleBlocks =
     [(''stone'', stoneBlock), (''snow'', snowBlock), (''coal'', coalBlock),
      (''obsidian'', obsidianBlock), (''glass'', glassBlock), (''torch'', torchBlock),
      (''redstone_ore'', redstoneOreBlock)]"

text \<open>
  Two palette entries whose colours are \<open>[0.1, 0.3, 1.5]\<close> and \<open>[1.5, 0.3, 0.1]\<close> as a JSON
  parser reads them: \<open>0.1\<close> and \<open>0.3\<close> are the doubles nearest to them, \<open>1.5\<close> is
  exact.
\<close>

definition tieEntryA :: entry where
  "tieEntryA =
     \<lparr>entry_id = ''a'', entry_name = ''a'',
      entry_lab = (3602879701896397 / 36028797018963968, 5404319552844595 / 18014398509481984, 3 / 2),
      entry_tags = \<lparr>transparent = False, noisy = False, creative_only = False\<rparr>,
      entry_flags = solidFlags\<rparr>"

definition tieEntryB :: entry where
  "tieEntryB =
     \<lparr>entry_id = ''b'', entry_name = ''b'',
      entry_lab = (3 / 2, 5404319552844595 / 18014398509481984, 3602879701896397 / 36028797018963968),
      entry_tags = \<lparr>transparent = False, noisy = False, creative_only = False\<rparr>,
      entry_flags = solidFlags\<rparr>"

text \<open>An image loader for which every request fails; images are named by their URL.\<close>

definition noImages :: "string \<Rightarrow> string option" where
  "noImages i = None"

text \<open>
  A 2 by 2 pixel buffer: black, dark grey, black again, and a transparent pixel.
\<close>

definition examplePixels :: "pixel list" where
  "examplePixels = [(0, 0, 0, 255), (10, 10, 10, 255), (0, 0, 0, 255), (7, 7, 7, 0)]"

text \<open>An image loader for which only the image of \<open>obsidian\<close> loads.\<close>

definition obsidianOnly :: "string \<Rightarrow> string option" where
  "obsidianOnly i = (if i = ''obsidian'' then Some ''../textures_top/obsidian.png'' else None)"

definition allTextures :: "string \<Rightarrow> bool" where
  "allTextures i = True"

definition codepointOrder :: "string \<Rightarrow> string" where
  "codepointOrder s = s"

text \<open>The palette of the example catalogue under the default mode.\<close>

definition examplePalette :: "entry list" where
  "examplePalette = buildPalette codepointOrder allTextures exampleBlocks None False"

lemmas example_defs = buildPalette_def paletteEntry_def paletteMode_def exampleBlocks_def
  stoneBlock_def snowBlock_def coalBlock_def obsidianBlock_def glassBlock_def torchBlock_def
  redstoneOreBlock_def
  allTextures_def codepointOrder_def tagsOf_def flagsOf_def glassTags_def solidFlags_def Let_def

section \<open>Rounding to doubles\<close>

text \<open>
  \<open>fl64\<close> is odd, keeps 0 and the sign, and leaves a natural number below \<open>2 ^ 53\<close> as it
  is. Its value at a given argument is fixed by the binade of the argument and by the
  integer nearest to the scaled argument; the rules below evaluate it from these.
\<close>

lemma roundTiesToEven_eqI:
  assumes "of_int m - 1 / 2 < r" "r < of_int m + 1 / 2"
  shows "roundTiesToEven r = m"
proof -
  have "\<lfloor>r\<rfloor> = m \<or> \<lfloor>r\<rfloor> = m - 1" using assms by linarith
  then show ?thesis
  proof
    assume f: "\<lfloor>r\<rfloor> = m"
    then have "r - of_int m < 1 / 2" using assms by linarith
    with f show ?thesis by (simp add: roundTiesToEven_def)
  next
    assume f: "\<lfloor>r\<rfloor> = m - 1"
    then have "1 / 2 < r - of_int (m - 1)" using assms by simp
    with f show ?thesis by (simp add: roundTiesToEven_def Let_def)
  qed
qed

lemma fl64_minus: "fl64 (- x) = - fl64 x"
  by (simp add: fl64_def Let_def sgn_minus)

lemma fl64_zero: "fl64 0 = 0"
  by (simp add: fl64_def)

lemma fl64_nonneg: "0 \<le> x \<Longrightarrow> 0 \<le> fl64 x"
proof -
  assume x: "0 \<le> x"
  have "0 \<le> roundTiesToEven r" if "0 \<le> r" for r
  proof -
    from that have "0 \<le> \<lfloor>r\<rfloor>" by simp
    then show ?thesis by (auto simp: roundTiesToEven_def Let_def)
  qed
  then show ?thesis using x by (auto simp: fl64_def Let_def sgn_if)
qed

lemma fl64_eqI:
  assumes "0 < x" "2 powr (of_int e) \<le> x" "x < 2 powr (of_int e + 1)"
    and "(of_int m - 1 / 2) * 2 powr (of_int (max e (- 1022)) - 52) < x"
    and "x < (of_int m + 1 / 2) * 2 powr (of_int (max e (- 1022)) - 52)"
    and "y = of_int m * 2 powr (of_int (max e (- 1022)) - 52)"
  shows "fl64 x = y"
proof -
  define u :: real where "u = 2 powr (of_int (max e (- 1022)) - 52)"
  have e: "\<lfloor>log 2 \<bar>x\<bar>\<rfloor> = e"
    using assms(1-3) by (simp add: floor_log_eq_powr_iff)
  have u: "0 < u" unfolding u_def by simp
  have "of_int m - 1 / 2 < x / u" "x / u < of_int m + 1 / 2"
    using assms(4,5) u unfolding u_def[symmetric]
    by (simp_all add: pos_less_divide_eq pos_divide_less_eq)
  then have "roundTiesToEven (x / u) = m" by (rule roundTiesToEven_eqI)
  then show ?thesis using assms(1,6) e unfolding u_def by (simp add: fl64_def Let_def)
qed

lemma roundTiesToEven_tie:
  assumes "r = of_int f + 1 / 2"
  shows "roundTiesToEven r = (if even f then f else f + 1)"
proof -
  have "\<lfloor>r\<rfloor> = f" using assms by linarith
  then show ?thesis using assms by (simp add: roundTiesToEven_def)
qed

lemma fl64_tie_eqI:
  assumes "0 < x" "2 powr (of_int e) \<le> x" "x < 2 powr (of_int e + 1)"
    and "x = (of_int f + 1 / 2) * 2 powr (of_int (max e (- 1022)) - 52)"
    and "y = of_int (if even f then f else f + 1) * 2 powr (of_int (max e (- 1022)) - 52)"
  shows "fl64 x = y"
proof -
  define u :: real where "u = 2 powr (of_int (max e (- 1022)) - 52)"
  have e: "\<lfloor>log 2 \<bar>x\<bar>\<rfloor> = e"
    using assms(1-3) by (simp add: floor_log_eq_powr_iff)
  have u: "0 < u" unfolding u_def by simp
  have "x / u = of_int f + 1 / 2"
    using assms(4) u unfolding u_def[symmetric] by simp
  then have "roundTiesToEven (x / u) = (if even f then f else f + 1)"
    by (rule roundTiesToEven_tie)
  then show ?thesis using assms(1,5) e unfolding u_def by (simp add: fl64_def Let_def)
qed

lemma fl64_sqrt_eqI:
  assumes "0 < s" "(2 powr (of_int e))\<^sup>2 \<le> s" "s < (2 powr (of_int e + 1))\<^sup>2"
    and "1 \<le> m"
    and "((of_int m - 1 / 2) * 2 powr (of_int (max e (- 1022)) - 52))\<^sup>2 < s"
    and "s < ((of_int m + 1 / 2) * 2 powr (of_int (max e (- 1022)) - 52))\<^sup>2"
    and "y = of_int m * 2 powr (of_int (max e (- 1022)) - 52)"
  shows "fl64 (sqrt s) = y"
proof (rule fl64_eqI[where e = e and m = m])
  show "0 < sqrt s" using assms(1) by simp
  show "2 powr (of_int e) \<le> sqrt s"
    using assms(2) by (intro real_le_rsqrt)
  show "sqrt s < 2 powr (of_int e + 1)"
    using assms(3) by (intro real_less_lsqrt) simp_all
  have "0 \<le> (of_int m - 1 / 2) * (2::real) powr (of_int (max e (- 1022)) - 52)"
    using assms(4) by simp
  then show "(of_int m - 1 / 2) * 2 powr (of_int (max e (- 1022)) - 52) < sqrt s"
    using assms(5) by (intro real_less_rsqrt)
  have "0 \<le> (of_int m + 1 / 2) * (2::real) powr (of_int (max e (- 1022)) - 52)"
    using assms(4) by simp
  then show "sqrt s < (of_int m + 1 / 2) * 2 powr (of_int (max e (- 1022)) - 52)"
    using assms(6) by (intro real_less_lsqrt) simp_all
  show "y = of_int m * 2 powr (of_int (max e (- 1022)) - 52)" by (rule assms(7))
qed

lemma roundTiesToEven_of_int: "roundTiesToEven (of_int k) = k"
  by (simp add: roundTiesToEven_def)

lemma fl64_of_nat:
  assumes "n < 2 ^ 53"
  shows "fl64 (real n) = real n"
proof (cases "n = 0")
  case True
  then show ?thesis by (simp add: fl64_def)
next
  case False
  define e where "e = \<lfloor>log 2 (real n)\<rfloor>"
  have n1: "1 \<le> real n" using False by simp
  then have "0 \<le> log 2 (real n)" by simp
  then have e0: "0 \<le> e" unfolding e_def by simp
  have "real n < 2 ^ 53" using assms by (metis of_nat_less_numeral_power_cancel_iff)
  then have "log 2 (real n) < 53" using n1 by (subst log_less_iff) simp_all
  then have e52: "e \<le> 52" unfolding e_def by linarith
  define k where "k = nat (52 - e)"
  have u: "(2::real) powr (of_int (max e (- 1022)) - 52) = 1 / 2 ^ k"
  proof -
    have "of_int (max e (- 1022)) - (52::real) = - real k"
      using e0 e52 unfolding k_def by simp
    then show ?thesis by (simp add: powr_minus powr_realpow divide_inverse)
  qed
  have "real n / (1 / 2 ^ k) = of_int (int n * 2 ^ k)" by simp
  then have "roundTiesToEven (real n / (1 / 2 ^ k)) = int n * 2 ^ k"
    by (simp only: roundTiesToEven_of_int)
  then show ?thesis
    using False n1 u by (simp add: fl64_def Let_def e_def[symmetric])
qed

lemma fl64_numeral: "numeral k < (2::nat) ^ 53 \<Longrightarrow> fl64 (numeral k) = numeral k"
  using fl64_of_nat[of "numeral k"] by simp

lemma fl64_neg_eqI:
  assumes "x < 0" "2 powr (of_int e) \<le> - x" "- x < 2 powr (of_int e + 1)"
    and "(of_int m - 1 / 2) * 2 powr (of_int (max e (- 1022)) - 52) < - x"
    and "- x < (of_int m + 1 / 2) * 2 powr (of_int (max e (- 1022)) - 52)"
    and "y = - (of_int m * 2 powr (of_int (max e (- 1022)) - 52))"
  shows "fl64 x = y"
proof -
  have "fl64 (- x) = of_int m * 2 powr (of_int (max e (- 1022)) - 52)"
    using assms(1-5) by (intro fl64_eqI[where e = e and m = m]) simp_all
  then show ?thesis using assms(6) fl64_minus[of x] by simp
qed

section \<open>Lab conversion at black and white\<close>

lemma rgbToLab255_black: "rgbToLab255 0 0 0 = (0, 0, 0)"
  by (simp add: rgbToLab255_def srgbToLinear_def rgbToXyz_def xyzToLab_def fLab_def Let_def)

lemma srgbToLinear_one: "srgbToLinear 1 = 1"
  by (simp add: srgbToLinear_def)

lemma rgbToXyz_white: "rgbToXyz 1 1 1 = (0.95047, 1.0000001, 1.08883)"
  by (simp add: rgbToXyz_def Let_def)

lemma fLab_one: "fLab 1 = 1"
  by (simp add: fLab_def Let_def)

lemma fLab_white_Y: "1 < fLab 1.0000001 \<and> fLab 1.0000001 < 1.0000001"
proof -
  let ?y = "1.0000001 :: real"
  have f: "fLab ?y = root 3 ?y" by (simp add: fLab_def Let_def)
  have "root 3 1 < root 3 ?y" by (subst real_root_less_iff) simp_all
  then have lo: "1 < root 3 ?y" by simp
  have "?y < ?y ^ 3" by (simp add: power3_eq_cube)
  then have "root 3 ?y < root 3 (?y ^ 3)" by (subst real_root_less_iff) simp_all
  also have "root 3 (?y ^ 3) = ?y" by (rule real_root_power_cancel) simp_all
  finally show ?thesis using lo f by simp
qed

lemma rgbToLab255_white:
  "rgbToLab255 255 255 255 = (116 * fLab 1.0000001 - 16, 500 * (1 - fLab 1.0000001), 200 * (fLab 1.0000001 - 1))"
  by (simp add: rgbToLab255_def srgbToLinear_one rgbToXyz_white xyzToLab_def fLab_one Let_def)

section \<open>Nearest match\<close>

lemma belowBest_trans: "d' < d \<Longrightarrow> belowBest d bestD \<Longrightarrow> belowBest d' bestD"
  by (cases bestD) auto

lemma not_belowBest_less: "\<not> belowBest d bestD \<Longrightarrow> belowBest d' bestD \<Longrightarrow> d' < d"
  by (cases bestD) auto

lemma nearestScan_unchanged:
  "\<forall>p\<in>set ps. \<not> belowBest (distLab c (entry_lab p)) bestD \<Longrightarrow>
   nearestScan c ps (best, bestD) = (best, bestD)"
  by (induction ps) auto

text \<open>
  When some entry beats the current best, the scan ends at the first entry of least
  distance, and that distance beats the best the scan started with.
\<close>

lemma nearestScan_first_min:
  "\<exists>p\<in>set ps. belowBest (distLab c (entry_lab p)) bestD \<Longrightarrow>
   \<exists>i<length ps.
      nearestScan c ps (best, bestD) = (Some (ps ! i), Some (distLab c (entry_lab (ps ! i))))
      \<and> belowBest (distLab c (entry_lab (ps ! i))) bestD
      \<and> (\<forall>j<length ps. distLab c (entry_lab (ps ! i)) \<le> distLab c (entry_lab (ps ! j)))
      \<and> (\<forall>j<i. distLab c (entry_lab (ps ! i)) < distLab c (entry_lab (ps ! j)))"
proof (induction ps arbitrary: best bestD)
  case Nil
  then show ?case by simp
next
  case (Cons p ps)
  let ?d = "\<lambda>q. distLab c (entry_lab q)"
  show ?case
  proof (cases "belowBest (?d p) bestD")
    case True
    show ?thesis
    proof (cases "\<exists>q\<in>set ps. belowBest (?d q) (Some (?d p))")
      case False
      then have "nearestScan c ps (Some p, Some (?d p)) = (Some p, Some (?d p))"
        by (intro nearestScan_unchanged) simp
      moreover have "\<forall>j<length (p # ps). ?d p \<le> ?d ((p # ps) ! j)"
        using False by (auto simp: nth_Cons not_less split: nat.splits)
      ultimately show ?thesis using True
        by (intro exI[of _ 0]) simp
    next
      case ex: True
      from Cons.IH[OF ex, of "Some p"] obtain i where i: "i < length ps"
        "nearestScan c ps (Some p, Some (?d p)) = (Some (ps ! i), Some (?d (ps ! i)))"
        "?d (ps ! i) < ?d p"
        "\<forall>j<length ps. ?d (ps ! i) \<le> ?d (ps ! j)"
        "\<forall>j<i. ?d (ps ! i) < ?d (ps ! j)" by auto
      have "belowBest (?d (ps ! i)) bestD" using i(3) True by (rule belowBest_trans)
      moreover have "\<forall>j<length (p # ps). ?d (ps ! i) \<le> ?d ((p # ps) ! j)"
        using i(3,4) by (auto simp: nth_Cons split: nat.splits)
      moreover have "\<forall>j<Suc i. ?d (ps ! i) < ?d ((p # ps) ! j)"
        using i(3,5) by (auto simp: nth_Cons split: nat.splits)
      ultimately show ?thesis using True i(1,2)
        by (intro exI[of _ "Suc i"]) simp
    qed
  next
    case False
    with Cons.prems have ex: "\<exists>q\<in>set ps. belowBest (?d q) bestD" by auto
    from Cons.IH[OF ex, of best] obtain i where i: "i < length ps"
        "nearestScan c ps (best, bestD) = (Some (ps ! i), Some (?d (ps ! i)))"
        "belowBest (?d (ps ! i)) bestD"
        "\<forall>j<length ps. ?d (ps ! i) \<le> ?d (ps ! j)"
        "\<forall>j<i. ?d (ps ! i) < ?d (ps ! j)" by auto
    have lt: "?d (ps ! i) < ?d p" using False i(3) by (rule not_belowBest_less)
    have "\<forall>j<length (p # ps). ?d (ps ! i) \<le> ?d ((p # ps) ! j)"
      using lt i(4) by (auto simp: nth_Cons split: nat.splits)
    moreover have "\<forall>j<Suc i. ?d (ps ! i) < ?d ((p # ps) ! j)"
      using lt i(5) by (auto simp: nth_Cons split: nat.splits)
    ultimately show ?thesis using False i(1,2,3)
      by (intro exI[of _ "Suc i"]) simp
  qed
qed

lemma findNearestBlock_scan:
  assumes "PALETTE \<noteq> []"
  shows "\<exists>i<length PALETTE. findNearestBlock PALETTE c = Some (PALETTE ! i)
      \<and> (\<forall>j<length PALETTE.
            distLab c (entry_lab (PALETTE ! i)) \<le> distLab c (entry_lab (PALETTE ! j)))
      \<and> (\<forall>j<i. distLab c (entry_lab (PALETTE ! i)) < distLab c (entry_lab (PALETTE ! j)))"
proof -
  from assms obtain p where "p \<in> set PALETTE" by (cases PALETTE) auto
  then have "\<exists>p\<in>set PALETTE. belowBest (distLab c (entry_lab p)) None" by auto
  from nearestScan_first_min[OF this, of None] show ?thesis
    by (auto simp: findNearestBlock_def)
qed

lemma findNearestBlock_Some: "PALETTE \<noteq> [] \<Longrightarrow> \<exists>e\<in>set PALETTE. findNearestBlock PALETTE c = Some e"
  using findNearestBlock_scan[of PALETTE c] by auto

section \<open>Palette builder\<close>

lemma set_map_filter_eq: "set (List.map_filter f xs) = {y. \<exists>x\<in>set xs. f x = Some y}"
  by (induction xs) (auto split: option.splits)

lemma paletteEntry_id: "paletteEntry tex BLOCKS mode inc i = Some e \<Longrightarrow> entry_id e = i"
  by (auto simp: paletteEntry_def Let_def split: option.splits if_splits)

lemma paletteEntry_lab:
  "paletteEntry tex BLOCKS mode inc i = Some e \<Longrightarrow>
   \<exists>b. map_of BLOCKS i = Some b \<and> avg_lab b = Some (entry_lab e)"
  by (auto simp: paletteEntry_def Let_def split: option.splits if_splits)

lemma paletteEntry_full_solid:
  "paletteEntry tex BLOCKS ''full_solid'' inc i = Some e \<Longrightarrow> map_of BLOCKS i = Some b \<Longrightarrow>
   full_block (flagsOf b) \<and> \<not> transparent (tagsOf b) \<and> \<not> noisy (tagsOf b)"
  by (auto simp: paletteEntry_def Let_def split: option.splits if_splits)

lemma set_buildPalette:
  "set (buildPalette collate tex BLOCKS sel inc) =
   {e. \<exists>i\<in>fst ` set BLOCKS. paletteEntry tex BLOCKS (paletteMode sel) inc i = Some e}"
  by (auto simp: buildPalette_def Let_def set_map_filter_eq)

lemma sorted_buildPalette:
  "sorted (map (\<lambda>e. collate (entry_id e)) (buildPalette collate tex BLOCKS sel inc))"
  by (simp add: buildPalette_def Let_def)

lemma map_filter_ids:
  "map entry_id (List.map_filter (paletteEntry tex BLOCKS mode inc) ids) =
   filter (\<lambda>i. paletteEntry tex BLOCKS mode inc i \<noteq> None) ids"
  by (induction ids) (auto simp: paletteEntry_id split: option.splits)

lemma distinct_buildPalette:
  assumes "distinct (map fst BLOCKS)"
  shows "distinct (map entry_id (buildPalette collate tex BLOCKS sel inc))"
proof -
  let ?arr = "List.map_filter (paletteEntry tex BLOCKS (paletteMode sel) inc) (map fst BLOCKS)"
  have "distinct (map entry_id ?arr)"
    unfolding map_filter_ids using assms by (rule distinct_filter)
  then have "distinct ?arr" "inj_on entry_id (set ?arr)"
    by (simp_all add: distinct_map)
  then show ?thesis
    by (simp add: buildPalette_def Let_def distinct_map)
qed

section \<open>The matching pass\<close>

text \<open>The cache key determines the three colour bytes.\<close>

lemma rgbKey_b: "ucast (rgbKey r g b) = b"
  unfolding rgbKey_def
  by (rule bit_word_eqI) (auto simp: bit_simps dest: bit_imp_le_length)

lemma rgbKey_g: "ucast (drop_bit 8 (rgbKey r g b)) = g"
  unfolding rgbKey_def
  by (rule bit_word_eqI) (auto simp: bit_simps dest: bit_imp_le_length)

lemma rgbKey_r: "ucast (drop_bit 16 (rgbKey r g b)) = r"
  unfolding rgbKey_def
  by (rule bit_word_eqI) (auto simp: bit_simps dest: bit_imp_le_length)

lemma rgbKey_inj: "rgbKey r g b = rgbKey r' g' b' \<Longrightarrow> r = r' \<and> g = g' \<and> b = b'"
  by (metis rgbKey_r rgbKey_g rgbKey_b)

lemma sum_countsIncrement:
  "sum_list (map snd (countsIncrement i c)) = sum_list (map snd c) + 1"
proof -
  have "sum_list (map snd (AList.update i (Suc (case map_of c i of None \<Rightarrow> 0 | Some n \<Rightarrow> n)) c))
        = Suc (sum_list (map snd c))"
    by (induction c) (auto)
  then show ?thesis by (simp add: countsIncrement_def)
qed

lemma map_of_countsIncrement:
  "map_of (countsIncrement i c) j =
     (if j = i then Some ((case map_of c i of None \<Rightarrow> 0 | Some n \<Rightarrow> n) + 1) else map_of c j)"
  by (simp add: countsIncrement_def update_conv)

text \<open>
  A cache whose every entry is the nearest match of the colours with that key makes the
  loop agree with the pass without cache; the loop keeps the cache in that state.
\<close>

lemma generateLoop_uncached:
  assumes "\<forall>r g b e. cache s (rgbKey r g b) = Some e
             \<longrightarrow> findNearestBlock PALETTE (rgbToLab255 r g b) = Some e"
  shows "map_sum id (\<lambda>s'. (counts s', assign s')) (generateLoop PALETTE data s)
           = uncachedPass PALETTE data (counts s, assign s)"
  using assms
proof (induction data arbitrary: s)
  case Nil
  then show ?case by simp
next
  case (Cons px data)
  obtain r g b a where px: "px = (r, g, b, a)" by (cases px) auto
  show ?case
  proof (cases "a = 0")
    case True
    then show ?thesis using Cons.IH[of "s\<lparr>assign := assign s @ [None]\<rparr>"] Cons.prems
      by (simp add: px)
  next
    case False
    show ?thesis
    proof (cases "findNearestBlock PALETTE (rgbToLab255 r g b)")
      case None
      then have "cache s (rgbKey r g b) = None"
        using Cons.prems by (cases "cache s (rgbKey r g b)") auto
      then show ?thesis using False None by (simp add: px Let_def)
    next
      case (Some e)
      let ?s' = "\<lambda>c. \<lparr>counts = countsIncrement (entry_id e) (counts s),
                 assign = assign s @ [Some (entry_id e)], cache = c\<rparr>"
      show ?thesis
      proof (cases "cache s (rgbKey r g b)")
        case hit: (Some e')
        with Cons.prems Some have "e' = e" by force
        with hit False Some Cons.IH[of "?s' (cache s)"] Cons.prems show ?thesis
          by (simp add: px)
      next
        case miss: None
        have ok: "\<forall>r' g' b' e'. ((cache s)(rgbKey r g b \<mapsto> e)) (rgbKey r' g' b') = Some e'
             \<longrightarrow> findNearestBlock PALETTE (rgbToLab255 r' g' b') = Some e'"
          using Cons.prems Some by (auto dest: rgbKey_inj)
        from miss False Some Cons.IH[of "?s' ((cache s)(rgbKey r g b \<mapsto> e))"] ok show ?thesis
          by (simp add: px Let_def)
      qed
    qed
  qed
qed

lemma uncachedPass_total:
  "PALETTE \<noteq> [] \<Longrightarrow> \<exists>c' a'. uncachedPass PALETTE data (c, a) = Inr (c', a')"
proof (induction data arbitrary: c a)
  case Nil
  then show ?case by simp
next
  case (Cons px data)
  obtain r g b al where px: "px = (r, g, b, al)" by (cases px) auto
  from findNearestBlock_Some[OF Cons.prems, of "rgbToLab255 r g b"]
  obtain e where "findNearestBlock PALETTE (rgbToLab255 r g b) = Some e" by blast
  then show ?case using Cons.IH[OF Cons.prems] by (simp add: px)
qed

lemma uncachedPass_cells:
  "uncachedPass PALETTE data (c, a) = Inr (c', a') \<Longrightarrow>
   \<exists>cells. a' = a @ cells \<and> length cells = length data
      \<and> (\<forall>p<length data. cells ! p = None \<longleftrightarrow> alpha (data ! p) = 0)"
proof (induction data arbitrary: c a)
  case Nil
  then show ?case by simp
next
  case (Cons px data)
  obtain r g b al where px: "px = (r, g, b, al)" by (cases px) auto
  from Cons.prems obtain c1 x where
    step: "uncachedPass PALETTE data (c1, a @ [x]) = Inr (c', a')" and x: "x = None \<longleftrightarrow> al = 0"
    by (auto simp: px split: if_splits option.splits)
  from Cons.IH[OF step] obtain cells where cells: "a' = (a @ [x]) @ cells"
    "length cells = length data" "\<forall>p<length data. cells ! p = None \<longleftrightarrow> alpha (data ! p) = 0"
    by blast
  have "\<forall>p<length (px # data). (x # cells) ! p = None \<longleftrightarrow> alpha ((px # data) ! p) = 0"
    using cells(3) x by (auto simp: nth_Cons px alpha_def split: nat.splits)
  with cells(1,2) show ?case by (intro exI[of _ "x # cells"]) simp
qed

lemma uncachedPass_sum:
  "uncachedPass PALETTE data (c, a) = Inr (c', a') \<Longrightarrow>
   sum_list (map snd c) + count_list a None = length a \<Longrightarrow>
   sum_list (map snd c') + count_list a' None = length a'"
proof (induction data arbitrary: c a)
  case Nil
  then show ?case by simp
next
  case (Cons px data)
  obtain r g b al where px: "px = (r, g, b, al)" by (cases px) auto
  show ?case
  proof (cases "al = 0")
    case True
    with Cons.prems have "uncachedPass PALETTE data (c, a @ [None]) = Inr (c', a')"
      by (simp add: px)
    from Cons.IH[OF this] Cons.prems(2) show ?thesis by simp
  next
    case False
    with Cons.prems obtain e :: entry where
      "uncachedPass PALETTE data (countsIncrement (entry_id e) c, a @ [Some (entry_id e)]) = Inr (c', a')"
      by (auto simp: px split: option.splits)
    from Cons.IH[OF this] Cons.prems(2) show ?thesis by (simp add: sum_countsIncrement)
  qed
qed

lemma uncachedPass_exact:
  "uncachedPass PALETTE data (c, a) = Inr (c', a') \<Longrightarrow>
   \<forall>i. (case map_of c i of None \<Rightarrow> 0 | Some n \<Rightarrow> n) = count_list a (Some i) \<Longrightarrow>
   \<forall>i. (case map_of c' i of None \<Rightarrow> 0 | Some n \<Rightarrow> n) = count_list a' (Some i)"
proof (induction data arbitrary: c a)
  case Nil
  then show ?case by simp
next
  case (Cons px data)
  obtain r g b al where px: "px = (r, g, b, al)" by (cases px) auto
  show ?case
  proof (cases "al = 0")
    case True
    with Cons.prems have "uncachedPass PALETTE data (c, a @ [None]) = Inr (c', a')"
      by (simp add: px)
    from Cons.IH[OF this] Cons.prems(2) show ?thesis by simp
  next
    case False
    with Cons.prems obtain e :: entry where
      "uncachedPass PALETTE data (countsIncrement (entry_id e) c, a @ [Some (entry_id e)]) = Inr (c', a')"
      by (auto simp: px split: option.splits)
    from Cons.IH[OF this] Cons.prems(2) show ?thesis by (simp add: map_of_countsIncrement)
  qed
qed

lemma generate_uncached:
  assumes "PALETTE \<noteq> []"
  shows "\<exists>s. generate PALETTE data = Inr s
            \<and> uncachedPass PALETTE data ([], []) = Inr (counts s, assign s)"
proof -
  let ?s0 = "\<lparr>counts = [], assign = [], cache = Map.empty\<rparr>"
  have "map_sum id (\<lambda>s'. (counts s', assign s')) (generateLoop PALETTE data ?s0)
          = uncachedPass PALETTE data (counts ?s0, assign ?s0)"
    by (rule generateLoop_uncached) simp
  moreover from uncachedPass_total[OF assms, of data "[]" "[]"]
  obtain c' a' where "uncachedPass PALETTE data ([], []) = Inr (c', a')" by blast
  ultimately show ?thesis using assms
    by (cases "generateLoop PALETTE data ?s0") (auto simp: generate_def)
qed

lemma generate_pass:
  assumes "PALETTE \<noteq> []"
  shows "\<exists>s. generate PALETTE data = Inr s
      \<and> length (assign s) = length data
      \<and> sum_list (map snd (counts s)) + count_list (assign s) None = length data
      \<and> (\<forall>p<length data. assign s ! p = None \<longleftrightarrow> alpha (data ! p) = 0)
      \<and> (\<forall>i. (case map_of (counts s) i of None \<Rightarrow> 0 | Some k \<Rightarrow> k)
               = count_list (assign s) (Some i))"
proof -
  from generate_uncached[OF assms, of data] obtain s where s: "generate PALETTE data = Inr s"
    "uncachedPass PALETTE data ([], []) = Inr (counts s, assign s)" by blast
  from uncachedPass_cells[OF s(2)] have cells: "length (assign s) = length data"
    "\<forall>p<length data. assign s ! p = None \<longleftrightarrow> alpha (data ! p) = 0" by auto
  from uncachedPass_sum[OF s(2)] cells(1)
  have "sum_list (map snd (counts s)) + count_list (assign s) None = length data" by simp
  moreover from uncachedPass_exact[OF s(2)]
  have "\<forall>i. (case map_of (counts s) i of None \<Rightarrow> 0 | Some k \<Rightarrow> k) = count_list (assign s) (Some i)"
    by simp
  ultimately show ?thesis using s(1) cells by blast
qed

section \<open>Rendering\<close>

lemma drawCell_coords:
  "drawCell C c x y = Some d \<Longrightarrow> dx d = x * TILE \<and> dy d = y * TILE \<and> c \<noteq> None"
  by (auto simp: drawCell_def truthyId_def split: option.splits if_splits)

lemma render_snd:
  "snd (renderTextureMosaic fetchImage TEX_CACHE asg n) =
   concat (map (\<lambda>y. List.map_filter
                      (\<lambda>x. drawCell (fst (renderTextureMosaic fetchImage TEX_CACHE asg n))
                              (cellAt asg (y * n + x)) x y) [0..<n]) [0..<n])"
  by (simp add: renderTextureMosaic_def Let_def)

lemma render_draw_origin:
  assumes "d \<in> set (snd (renderTextureMosaic fetchImage TEX_CACHE asg n))"
  shows "\<exists>x<n. \<exists>y<n. dx d = x * TILE \<and> dy d = y * TILE \<and> cellAt asg (y * n + x) \<noteq> None"
proof -
  define C where "C = fst (renderTextureMosaic fetchImage TEX_CACHE asg n)"
  from assms obtain y where y: "y < n"
    "d \<in> set (List.map_filter (\<lambda>x. drawCell C (cellAt asg (y * n + x)) x y) [0..<n])"
    unfolding render_snd C_def[symmetric] by auto
  from y(2) obtain x where "x < n" "drawCell C (cellAt asg (y * n + x)) x y = Some d"
    unfolding set_map_filter_eq by auto
  with drawCell_coords[OF this(2)] y(1) show ?thesis by blast
qed

lemma length_map_filter: "length (List.map_filter f xs) = length (filter (\<lambda>x. f x \<noteq> None) xs)"
  by (induction xs) (auto split: option.splits)

lemma length_filter_rows:
  "(\<Sum>y\<leftarrow>[0..<m]. length (filter P [y * n..<y * n + n])) = length (filter P [0..<m * n])"
proof (induction m)
  case 0
  then show ?case by simp
next
  case (Suc m)
  define f where "f = (\<lambda>y. length (filter P [y * n..<y * n + n]))"
  have "[0..<m * n + n] = [0..<m * n] @ [m * n..<m * n + n]"
    by (rule upt_add_eq_append) simp
  moreover have "Suc m * n = m * n + n" by simp
  ultimately have "length (filter P [0..<Suc m * n]) = length (filter P [0..<m * n]) + f m"
    unfolding f_def by (simp only: filter_append length_append)
  moreover have "(\<Sum>y\<leftarrow>[0..<Suc m]. f y) = (\<Sum>y\<leftarrow>[0..<m]. f y) + f m" by simp
  moreover have "(\<Sum>y\<leftarrow>[0..<m]. f y) = length (filter P [0..<m * n])"
    using Suc unfolding f_def .
  ultimately show ?case unfolding f_def by linarith
qed

lemma filter_row_shift:
  "length (filter (\<lambda>x. P (y * n + x)) [0..<n]) = length (filter P [y * n..<y * n + n])"
proof -
  have "[y * n..<y * n + n] = map (\<lambda>x. y * n + x) [0..<n]"
    by (simp add: map_add_upt add.commute)
  then show ?thesis by (simp add: filter_map o_def)
qed

lemma filter_cells:
  "length (filter (\<lambda>p. P (cellAt asg p)) [0..<length asg]) = length (filter P asg)"
proof -
  have "map (cellAt asg) [0..<length asg] = asg"
    by (rule nth_equalityI) (simp_all add: cellAt_def)
  then have "length (filter P asg) = length (filter P (map (cellAt asg) [0..<length asg]))"
    by simp
  then show ?thesis by (simp add: filter_map o_def)
qed

lemma drawable_iff:
  "drawCell C c x y \<noteq> None \<longleftrightarrow> (case c of None \<Rightarrow> False | Some i \<Rightarrow> i \<noteq> [] \<and> C i \<noteq> None)"
  by (simp add: drawCell_def truthyId_def split: option.splits)

lemma render_draw_count:
  assumes "length asg = n * n"
  shows "length (snd (renderTextureMosaic fetchImage TEX_CACHE asg n)) =
         length (filter (\<lambda>c. case c of None \<Rightarrow> False
                              | Some i \<Rightarrow> i \<noteq> [] \<and> fst (renderTextureMosaic fetchImage TEX_CACHE asg n) i \<noteq> None) asg)"
proof -
  define C where "C = fst (renderTextureMosaic fetchImage TEX_CACHE asg n)"
  define P where "P = (\<lambda>c. case c of None \<Rightarrow> False | Some i \<Rightarrow> i \<noteq> [] \<and> C i \<noteq> None)"
  have P: "(\<exists>d. drawCell C c x y = Some d) \<longleftrightarrow> P c" for c x y
    using drawable_iff[of C c x y] unfolding P_def by simp
  have "length (snd (renderTextureMosaic fetchImage TEX_CACHE asg n)) =
        (\<Sum>y\<leftarrow>[0..<n]. length (filter (\<lambda>x. P (cellAt asg (y * n + x))) [0..<n]))"
    unfolding render_snd C_def[symmetric]
    by (simp add: length_concat length_map_filter P o_def)
  also have "\<dots> = (\<Sum>y\<leftarrow>[0..<n]. length (filter (\<lambda>p. P (cellAt asg p)) [y * n..<y * n + n]))"
    by (simp only: filter_row_shift[of "\<lambda>p. P (cellAt asg p)"])
  also have "\<dots> = length (filter (\<lambda>p. P (cellAt asg p)) [0..<n * n])"
    by (rule length_filter_rows)
  also have "\<dots> = length (filter P asg)"
    using filter_cells[of P asg] assms by simp
  finally show ?thesis unfolding P_def C_def .
qed

lemma cell_index_bound: "x < n \<Longrightarrow> y < n \<Longrightarrow> y * n + x < n * (n::nat)"
proof -
  assume "x < n" "y < n"
  then have "y * n + x < y * n + n" by simp
  also have "y * n + n = Suc y * n" by simp
  also have "Suc y * n \<le> n * n" using \<open>y < n\<close> by (intro mult_le_mono1) simp
  finally show ?thesis .
qed

lemma transparent_not_drawn:
  assumes "length asg = n * n" "x < n" "y < n" "asg ! (y * n + x) = None"
    and "d \<in> set (snd (renderTextureMosaic fetchImage TEX_CACHE asg n))"
  shows "\<not> (dx d = x * TILE \<and> dy d = y * TILE)"
proof
  assume at: "dx d = x * TILE \<and> dy d = y * TILE"
  from render_draw_origin[OF assms(5)] obtain x' y' where o: "x' < n" "y' < n"
    "dx d = x' * TILE" "dy d = y' * TILE" "cellAt asg (y' * n + x') \<noteq> None" by blast
  with at have "x' = x" "y' = y" by (simp_all add: TILE_def)
  moreover have "cellAt asg (y * n + x) = None"
    using assms(1,4) cell_index_bound[OF assms(2,3)] by (simp add: cellAt_def)
  ultimately show False using o(5) by simp
qed

lemma filter_partition:
  assumes "\<not> P None" "\<not> Q None" "\<And>i. P (Some i) \<noteq> Q (Some i)"
  shows "length (filter P asg) + length (filter Q asg) + count_list asg None = length asg"
proof (induction asg)
  case Nil
  then show ?case by simp
next
  case (Cons c asg)
  then show ?case using assms by (cases c) auto
qed

lemma cells_partition:
  "length (filter (\<lambda>c. case c of None \<Rightarrow> False | Some i \<Rightarrow> i \<noteq> [] \<and> C i \<noteq> None) asg)
   + length (filter (\<lambda>c. case c of None \<Rightarrow> False | Some i \<Rightarrow> i = [] \<or> C i = None) asg)
   + count_list asg None = length asg"
  by (rule filter_partition) auto

section \<open>The examples, evaluated\<close>

lemma examplePalette_eq:
  "buildPalette codepointOrder allTextures exampleBlocks None False =
     [\<lparr>entry_id = ''coal'', entry_name = ''Coal'', entry_lab = (5, 0, 0),
       entry_tags = tagsOf coalBlock, entry_flags = solidFlags\<rparr>,
      \<lparr>entry_id = ''obsidian'', entry_name = ''Obsidian'', entry_lab = (0, 0, 0),
       entry_tags = tagsOf obsidianBlock, entry_flags = solidFlags\<rparr>,
      \<lparr>entry_id = ''redstone_ore'', entry_name = ''Redstone Ore'', entry_lab = (40, 30, 20),
       entry_tags = tagsOf redstoneOreBlock, entry_flags = flagsOf redstoneOreBlock\<rparr>,
      \<lparr>entry_id = ''snow'', entry_name = ''Snow'', entry_lab = (95, 0, 0),
       entry_tags = tagsOf snowBlock, entry_flags = solidFlags\<rparr>,
      \<lparr>entry_id = ''stone'', entry_name = ''Stone'', entry_lab = (60, 0, 0),
       entry_tags = tagsOf stoneBlock, entry_flags = solidFlags\<rparr>]"
  by (simp add: example_defs)

lemma examplePalette_ids:
  "map entry_id examplePalette = [''coal'', ''obsidian'', ''redstone_ore'', ''snow'', ''stone'']"
  unfolding examplePalette_def examplePalette_eq by simp

text \<open>
  The computed distances that the examples need, one rounding after the other. The
  squares of the differences from \<open>(70, 0, 0)\<close> and from black are natural numbers; three
  of their sums are no squares.
\<close>

lemma fl64_sqrt_2200: "fl64 (sqrt 2200) = 6601173333797969 / 140737488355328"
  by (rule fl64_sqrt_eqI[where e = "5" and m = "6601173333797969"])
     (simp_all add: powr_neg_numeral power2_eq_square)

lemma fl64_sqrt_2600: "fl64 (sqrt 2600) = 1794057998544637 / 35184372088832"
  by (rule fl64_sqrt_eqI[where e = "5" and m = "7176231994178548"])
     (simp_all add: powr_neg_numeral power2_eq_square)

lemma fl64_sqrt_2900: "fl64 (sqrt 2900) = 473684105834759 / 8796093022208"
  by (rule fl64_sqrt_eqI[where e = "5" and m = "7578945693356144"])
     (simp_all add: powr_neg_numeral power2_eq_square)

lemma examplePalette_nearest_black:
  "findNearestBlock examplePalette (rgbToLab255 0 0 0) = Some (examplePalette ! 1)"
  unfolding examplePalette_def examplePalette_eq rgbToLab255_black
  by (simp add: findNearestBlock_def fl64_minus fl64_numeral fl64_zero fl64_sqrt_2900)

text \<open>The pixel \<open>(10, 10, 10)\<close> in Lab space, and its computed distance to every entry.\<close>

lemma rgbToLab255_grey:
  "rgbToLab255 10 10 10 = (243890024389 / 88954200000, - (841 / 711633600), 841 / 1779084000)"
  by (simp add: rgbToLab255_def srgbToLinear_def rgbToXyz_def xyzToLab_def fLab_def Let_def)

lemma distLab_grey_coal:
  "distLab (243890024389 / 88954200000, - (841 / 711633600), 841 / 1779084000)
     (5, 0, 0)
   = 5085130813990037 / 2251799813685248"
proof -
  have dL:
    "fl64 (243890024389 / 88954200000 - 5)
       = - (5085130813989229 / 2251799813685248)"
    by (rule fl64_neg_eqI[where e = "1" and m = "5085130813989229"])
       (simp_all add: powr_neg_numeral power2_eq_square)
  have da:
    "fl64 ((- (841 / 711633600)) - 0)
       = - (5580835716713449 / 4722366482869645213696)"
    by (rule fl64_neg_eqI[where e = "- 20" and m = "5580835716713449"])
       (simp_all add: powr_neg_numeral power2_eq_square)
  have db:
    "fl64 (841 / 1779084000 - 0)
       = 4464668573370759 / 9444732965739290427392"
    by (rule fl64_eqI[where e = "- 22" and m = "8929337146741518"])
       (simp_all add: powr_neg_numeral power2_eq_square)
  have qL:
    "fl64 ((- (5085130813989229 / 2251799813685248)) * (- (5085130813989229 / 2251799813685248)))
       = 5741752716699801 / 1125899906842624"
    by (rule fl64_eqI[where e = "2" and m = "5741752716699801"])
       (simp_all add: powr_neg_numeral power2_eq_square)
  have qa:
    "fl64 ((- (5580835716713449 / 4722366482869645213696)) * (- (5580835716713449 / 4722366482869645213696)))
       = 864467589094101 / 618970019642690137449562112"
    by (rule fl64_eqI[where e = "- 40" and m = "6915740712752808"])
       (simp_all add: powr_neg_numeral power2_eq_square)
  have qb:
    "fl64 (4464668573370759 / 9444732965739290427392 * (4464668573370759 / 9444732965739290427392))
       = 4426074056161797 / 19807040628566084398385987584"
    by (rule fl64_eqI[where e = "- 43" and m = "8852148112323594"])
       (simp_all add: powr_neg_numeral power2_eq_square)
  have s1:
    "fl64 (5741752716699801 / 1125899906842624 + (864467589094101 / 618970019642690137449562112))
       = 5741752716701373 / 1125899906842624"
    by (rule fl64_eqI[where e = "2" and m = "5741752716701373"])
       (simp_all add: powr_neg_numeral power2_eq_square)
  have s2:
    "fl64 (5741752716701373 / 1125899906842624 + (4426074056161797 / 19807040628566084398385987584))
       = 5741752716701625 / 1125899906842624"
    by (rule fl64_eqI[where e = "2" and m = "5741752716701625"])
       (simp_all add: powr_neg_numeral power2_eq_square)
  have rt:
    "fl64 (sqrt (5741752716701625 / 1125899906842624))
       = 5085130813990037 / 2251799813685248"
    by (rule fl64_sqrt_eqI[where e = "1" and m = "5085130813990037"])
       (simp_all add: powr_neg_numeral power2_eq_square)
  show ?thesis
    by (simp only: distLab.simps Let_def dL da db qL qa qb s1 s2 rt)
qed

lemma distLab_grey_obsidian:
  "distLab (243890024389 / 88954200000, - (841 / 711633600), 841 / 1779084000)
     (0, 0, 0)
   = 1543467063609419 / 562949953421312"
proof -
  have dL:
    "fl64 (243890024389 / 88954200000 - 0)
       = 6173868254437011 / 2251799813685248"
    by (rule fl64_eqI[where e = "1" and m = "6173868254437011"])
       (simp_all add: powr_neg_numeral power2_eq_square)
  have da:
    "fl64 ((- (841 / 711633600)) - 0)
       = - (5580835716713449 / 4722366482869645213696)"
    by (rule fl64_neg_eqI[where e = "- 20" and m = "5580835716713449"])
       (simp_all add: powr_neg_numeral power2_eq_square)
  have db:
    "fl64 (841 / 1779084000 - 0)
       = 4464668573370759 / 9444732965739290427392"
    by (rule fl64_eqI[where e = "- 22" and m = "8929337146741518"])
       (simp_all add: powr_neg_numeral power2_eq_square)
  have qL:
    "fl64 (6173868254437011 / 2251799813685248 * (6173868254437011 / 2251799813685248))
       = 1057949539727407 / 140737488355328"
    by (rule fl64_eqI[where e = "2" and m = "8463596317819256"])
       (simp_all add: powr_neg_numeral power2_eq_square)
  have qa:
    "fl64 ((- (5580835716713449 / 4722366482869645213696)) * (- (5580835716713449 / 4722366482869645213696)))
       = 864467589094101 / 618970019642690137449562112"
    by (rule fl64_eqI[where e = "- 40" and m = "6915740712752808"])
       (simp_all add: powr_neg_numeral power2_eq_square)
  have qb:
    "fl64 (4464668573370759 / 9444732965739290427392 * (4464668573370759 / 9444732965739290427392))
       = 4426074056161797 / 19807040628566084398385987584"
    by (rule fl64_eqI[where e = "- 43" and m = "8852148112323594"])
       (simp_all add: powr_neg_numeral power2_eq_square)
  have s1:
    "fl64 (1057949539727407 / 140737488355328 + (864467589094101 / 618970019642690137449562112))
       = 2115899079455207 / 281474976710656"
    by (rule fl64_eqI[where e = "2" and m = "8463596317820828"])
       (simp_all add: powr_neg_numeral power2_eq_square)
  have s2:
    "fl64 (2115899079455207 / 281474976710656 + (4426074056161797 / 19807040628566084398385987584))
       = 1057949539727635 / 140737488355328"
    by (rule fl64_eqI[where e = "2" and m = "8463596317821080"])
       (simp_all add: powr_neg_numeral power2_eq_square)
  have rt:
    "fl64 (sqrt (1057949539727635 / 140737488355328))
       = 1543467063609419 / 562949953421312"
    by (rule fl64_sqrt_eqI[where e = "1" and m = "6173868254437676"])
       (simp_all add: powr_neg_numeral power2_eq_square)
  show ?thesis
    by (simp only: distLab.simps Let_def dL da db qL qa qb s1 s2 rt)
qed

lemma distLab_grey_redstone_ore:
  "distLab (243890024389 / 88954200000, - (841 / 711633600), 841 / 1779084000)
     (40, 30, 20)
   = 1824226521980935 / 35184372088832"
proof -
  have dL:
    "fl64 (243890024389 / 88954200000 - 40)
       = - (5243632768310807 / 140737488355328)"
    by (rule fl64_neg_eqI[where e = "5" and m = "5243632768310807"])
       (simp_all add: powr_neg_numeral power2_eq_square)
  have da:
    "fl64 ((- (841 / 711633600)) - 30)
       = - (4222124816981705 / 140737488355328)"
    by (rule fl64_neg_eqI[where e = "4" and m = "8444249633963410"])
       (simp_all add: powr_neg_numeral power2_eq_square)
  have db:
    "fl64 (841 / 1779084000 - 20)
       = - (1407374850288907 / 70368744177664)"
    by (rule fl64_neg_eqI[where e = "4" and m = "5629499401155628"])
       (simp_all add: powr_neg_numeral power2_eq_square)
  have qL:
    "fl64 ((- (5243632768310807 / 140737488355328)) * (- (5243632768310807 / 140737488355328)))
       = 6105268426127099 / 4398046511104"
    by (rule fl64_eqI[where e = "10" and m = "6105268426127099"])
       (simp_all add: powr_neg_numeral power2_eq_square)
  have qa:
    "fl64 ((- (4222124816981705 / 140737488355328)) * (- (4222124816981705 / 140737488355328)))
       = 3958242171847103 / 4398046511104"
    by (rule fl64_eqI[where e = "9" and m = "7916484343694206"])
       (simp_all add: powr_neg_numeral power2_eq_square)
  have qb:
    "fl64 ((- (1407374850288907 / 70368744177664)) * (- (1407374850288907 / 70368744177664)))
       = 3518437042561337 / 8796093022208"
    by (rule fl64_eqI[where e = "8" and m = "7036874085122674"])
       (simp_all add: powr_neg_numeral power2_eq_square)
  have s1:
    "fl64 (6105268426127099 / 4398046511104 + (3958242171847103 / 4398046511104))
       = 5031755298987101 / 2199023255552"
    by (rule fl64_eqI[where e = "11" and m = "5031755298987101"])
       (simp_all add: powr_neg_numeral power2_eq_square)
  have s2:
    "fl64 (5031755298987101 / 2199023255552 + (3518437042561337 / 8796093022208))
       = 5911364559627435 / 2199023255552"
    by (rule fl64_eqI[where e = "11" and m = "5911364559627435"])
       (simp_all add: powr_neg_numeral power2_eq_square)
  have rt:
    "fl64 (sqrt (5911364559627435 / 2199023255552))
       = 1824226521980935 / 35184372088832"
    by (rule fl64_sqrt_eqI[where e = "5" and m = "7296906087923740"])
       (simp_all add: powr_neg_numeral power2_eq_square)
  show ?thesis
    by (simp only: distLab.simps Let_def dL da db qL qa qb s1 s2 rt)
qed

lemma distLab_grey_snow:
  "distLab (243890024389 / 88954200000, - (841 / 711633600), 841 / 1779084000)
     (95, 0, 0)
   = 1623024328481731 / 17592186044416"
proof -
  have dL:
    "fl64 (243890024389 / 88954200000 - 95)
       = - (6492097313926923 / 70368744177664)"
    by (rule fl64_neg_eqI[where e = "6" and m = "6492097313926923"])
       (simp_all add: powr_neg_numeral power2_eq_square)
  have da:
    "fl64 ((- (841 / 711633600)) - 0)
       = - (5580835716713449 / 4722366482869645213696)"
    by (rule fl64_neg_eqI[where e = "- 20" and m = "5580835716713449"])
       (simp_all add: powr_neg_numeral power2_eq_square)
  have db:
    "fl64 (841 / 1779084000 - 0)
       = 4464668573370759 / 9444732965739290427392"
    by (rule fl64_eqI[where e = "- 22" and m = "8929337146741518"])
       (simp_all add: powr_neg_numeral power2_eq_square)
  have qL:
    "fl64 ((- (6492097313926923 / 70368744177664)) * (- (6492097313926923 / 70368744177664)))
       = 4679293345410637 / 549755813888"
    by (rule fl64_eqI[where e = "13" and m = "4679293345410637"])
       (simp_all add: powr_neg_numeral power2_eq_square)
  have qa:
    "fl64 ((- (5580835716713449 / 4722366482869645213696)) * (- (5580835716713449 / 4722366482869645213696)))
       = 864467589094101 / 618970019642690137449562112"
    by (rule fl64_eqI[where e = "- 40" and m = "6915740712752808"])
       (simp_all add: powr_neg_numeral power2_eq_square)
  have qb:
    "fl64 (4464668573370759 / 9444732965739290427392 * (4464668573370759 / 9444732965739290427392))
       = 4426074056161797 / 19807040628566084398385987584"
    by (rule fl64_eqI[where e = "- 43" and m = "8852148112323594"])
       (simp_all add: powr_neg_numeral power2_eq_square)
  have s1:
    "fl64 (4679293345410637 / 549755813888 + (864467589094101 / 618970019642690137449562112))
       = 2339646672705319 / 274877906944"
    by (rule fl64_eqI[where e = "13" and m = "4679293345410638"])
       (simp_all add: powr_neg_numeral power2_eq_square)
  have s2:
    "fl64 (2339646672705319 / 274877906944 + (4426074056161797 / 19807040628566084398385987584))
       = 2339646672705319 / 274877906944"
    by (rule fl64_eqI[where e = "13" and m = "4679293345410638"])
       (simp_all add: powr_neg_numeral power2_eq_square)
  have rt:
    "fl64 (sqrt (2339646672705319 / 274877906944))
       = 1623024328481731 / 17592186044416"
    by (rule fl64_sqrt_eqI[where e = "6" and m = "6492097313926924"])
       (simp_all add: powr_neg_numeral power2_eq_square)
  show ?thesis
    by (simp only: distLab.simps Let_def dL da db qL qa qb s1 s2 rt)
qed

lemma distLab_grey_stone:
  "distLab (243890024389 / 88954200000, - (841 / 711633600), 841 / 1779084000)
     (60, 0, 0)
   = 8058382535417369 / 140737488355328"
proof -
  have dL:
    "fl64 (243890024389 / 88954200000 - 60)
       = - (8058382535417367 / 140737488355328)"
    by (rule fl64_neg_eqI[where e = "5" and m = "8058382535417367"])
       (simp_all add: powr_neg_numeral power2_eq_square)
  have da:
    "fl64 ((- (841 / 711633600)) - 0)
       = - (5580835716713449 / 4722366482869645213696)"
    by (rule fl64_neg_eqI[where e = "- 20" and m = "5580835716713449"])
       (simp_all add: powr_neg_numeral power2_eq_square)
  have db:
    "fl64 (841 / 1779084000 - 0)
       = 4464668573370759 / 9444732965739290427392"
    by (rule fl64_eqI[where e = "- 22" and m = "8929337146741518"])
       (simp_all add: powr_neg_numeral power2_eq_square)
  have qL:
    "fl64 ((- (8058382535417367 / 140737488355328)) * (- (8058382535417367 / 140737488355328)))
       = 1802378498869651 / 549755813888"
    by (rule fl64_eqI[where e = "11" and m = "7209513995478604"])
       (simp_all add: powr_neg_numeral power2_eq_square)
  have qa:
    "fl64 ((- (5580835716713449 / 4722366482869645213696)) * (- (5580835716713449 / 4722366482869645213696)))
       = 864467589094101 / 618970019642690137449562112"
    by (rule fl64_eqI[where e = "- 40" and m = "6915740712752808"])
       (simp_all add: powr_neg_numeral power2_eq_square)
  have qb:
    "fl64 (4464668573370759 / 9444732965739290427392 * (4464668573370759 / 9444732965739290427392))
       = 4426074056161797 / 19807040628566084398385987584"
    by (rule fl64_eqI[where e = "- 43" and m = "8852148112323594"])
       (simp_all add: powr_neg_numeral power2_eq_square)
  have s1:
    "fl64 (1802378498869651 / 549755813888 + (864467589094101 / 618970019642690137449562112))
       = 7209513995478607 / 2199023255552"
    by (rule fl64_eqI[where e = "11" and m = "7209513995478607"])
       (simp_all add: powr_neg_numeral power2_eq_square)
  have s2:
    "fl64 (7209513995478607 / 2199023255552 + (4426074056161797 / 19807040628566084398385987584))
       = 7209513995478607 / 2199023255552"
    by (rule fl64_eqI[where e = "11" and m = "7209513995478607"])
       (simp_all add: powr_neg_numeral power2_eq_square)
  have rt:
    "fl64 (sqrt (7209513995478607 / 2199023255552))
       = 8058382535417369 / 140737488355328"
    by (rule fl64_sqrt_eqI[where e = "5" and m = "8058382535417369"])
       (simp_all add: powr_neg_numeral power2_eq_square)
  show ?thesis
    by (simp only: distLab.simps Let_def dL da db qL qa qb s1 s2 rt)
qed

lemma examplePalette_nearest_grey:
  "findNearestBlock examplePalette (rgbToLab255 10 10 10) = Some (examplePalette ! 0)"
  unfolding examplePalette_def examplePalette_eq rgbToLab255_grey
  by (simp add: findNearestBlock_def distLab_grey_coal distLab_grey_obsidian distLab_grey_redstone_ore
        distLab_grey_snow distLab_grey_stone
        del: distLab.simps)

text \<open>The computed distances of the two entries with permuted colours from black.\<close>

lemma distLab_tieA:
  "distLab (0, 0, 0)
     (3602879701896397 / 36028797018963968, 5404319552844595 / 18014398509481984, 3 / 2)
   = 6903887496807971 / 4503599627370496"
proof -
  have dL:
    "fl64 (0 - (3602879701896397 / 36028797018963968))
       = - (3602879701896397 / 36028797018963968)"
    by (rule fl64_neg_eqI[where e = "- 4" and m = "7205759403792794"])
       (simp_all add: powr_neg_numeral power2_eq_square)
  have da:
    "fl64 (0 - (5404319552844595 / 18014398509481984))
       = - (5404319552844595 / 18014398509481984)"
    by (rule fl64_neg_eqI[where e = "- 2" and m = "5404319552844595"])
       (simp_all add: powr_neg_numeral power2_eq_square)
  have db:
    "fl64 (0 - (3 / 2))
       = - (3 / 2)"
    by (rule fl64_neg_eqI[where e = "0" and m = "6755399441055744"])
       (simp_all add: powr_neg_numeral power2_eq_square)
  have qL:
    "fl64 ((- (3602879701896397 / 36028797018963968)) * (- (3602879701896397 / 36028797018963968)))
       = 1441151880758559 / 144115188075855872"
    by (rule fl64_eqI[where e = "- 7" and m = "5764607523034236"])
       (simp_all add: powr_neg_numeral power2_eq_square)
  have qa:
    "fl64 ((- (5404319552844595 / 18014398509481984)) * (- (5404319552844595 / 18014398509481984)))
       = 3242591731706757 / 36028797018963968"
    by (rule fl64_eqI[where e = "- 4" and m = "6485183463413514"])
       (simp_all add: powr_neg_numeral power2_eq_square)
  have qb:
    "fl64 ((- (3 / 2)) * (- (3 / 2)))
       = 9 / 4"
    by (rule fl64_eqI[where e = "1" and m = "5066549580791808"])
       (simp_all add: powr_neg_numeral power2_eq_square)
  have s1:
    "fl64 (1441151880758559 / 144115188075855872 + (3242591731706757 / 36028797018963968))
       = 3602879701896397 / 36028797018963968"
    by (rule fl64_tie_eqI[where e = "- 4" and f = "7205759403792793"])
       (simp_all add: powr_neg_numeral power2_eq_square)
  have s2:
    "fl64 (3602879701896397 / 36028797018963968 + (9 / 4))
       = 5291729562160333 / 2251799813685248"
    by (rule fl64_eqI[where e = "1" and m = "5291729562160333"])
       (simp_all add: powr_neg_numeral power2_eq_square)
  have rt:
    "fl64 (sqrt (5291729562160333 / 2251799813685248))
       = 6903887496807971 / 4503599627370496"
    by (rule fl64_sqrt_eqI[where e = "0" and m = "6903887496807971"])
       (simp_all add: powr_neg_numeral power2_eq_square)
  show ?thesis
    by (simp only: distLab.simps Let_def dL da db qL qa qb s1 s2 rt)
qed

lemma distLab_tieB:
  "distLab (0, 0, 0)
     (3 / 2, 5404319552844595 / 18014398509481984, 3602879701896397 / 36028797018963968)
   = 3451943748403985 / 2251799813685248"
proof -
  have dL:
    "fl64 (0 - (3 / 2))
       = - (3 / 2)"
    by (rule fl64_neg_eqI[where e = "0" and m = "6755399441055744"])
       (simp_all add: powr_neg_numeral power2_eq_square)
  have da:
    "fl64 (0 - (5404319552844595 / 18014398509481984))
       = - (5404319552844595 / 18014398509481984)"
    by (rule fl64_neg_eqI[where e = "- 2" and m = "5404319552844595"])
       (simp_all add: powr_neg_numeral power2_eq_square)
  have db:
    "fl64 (0 - (3602879701896397 / 36028797018963968))
       = - (3602879701896397 / 36028797018963968)"
    by (rule fl64_neg_eqI[where e = "- 4" and m = "7205759403792794"])
       (simp_all add: powr_neg_numeral power2_eq_square)
  have qL:
    "fl64 ((- (3 / 2)) * (- (3 / 2)))
       = 9 / 4"
    by (rule fl64_eqI[where e = "1" and m = "5066549580791808"])
       (simp_all add: powr_neg_numeral power2_eq_square)
  have qa:
    "fl64 ((- (5404319552844595 / 18014398509481984)) * (- (5404319552844595 / 18014398509481984)))
       = 3242591731706757 / 36028797018963968"
    by (rule fl64_eqI[where e = "- 4" and m = "6485183463413514"])
       (simp_all add: powr_neg_numeral power2_eq_square)
  have qb:
    "fl64 ((- (3602879701896397 / 36028797018963968)) * (- (3602879701896397 / 36028797018963968)))
       = 1441151880758559 / 144115188075855872"
    by (rule fl64_eqI[where e = "- 7" and m = "5764607523034236"])
       (simp_all add: powr_neg_numeral power2_eq_square)
  have s1:
    "fl64 (9 / 4 + (3242591731706757 / 36028797018963968))
       = 658651445502935 / 281474976710656"
    by (rule fl64_eqI[where e = "1" and m = "5269211564023480"])
       (simp_all add: powr_neg_numeral power2_eq_square)
  have s2:
    "fl64 (658651445502935 / 281474976710656 + (1441151880758559 / 144115188075855872))
       = 1322932390540083 / 562949953421312"
    by (rule fl64_eqI[where e = "1" and m = "5291729562160332"])
       (simp_all add: powr_neg_numeral power2_eq_square)
  have rt:
    "fl64 (sqrt (1322932390540083 / 562949953421312))
       = 3451943748403985 / 2251799813685248"
    by (rule fl64_sqrt_eqI[where e = "0" and m = "6903887496807970"])
       (simp_all add: powr_neg_numeral power2_eq_square)
  show ?thesis
    by (simp only: distLab.simps Let_def dL da db qL qa qb s1 s2 rt)
qed

lemma examplePalette_nth_ids:
  "entry_id (examplePalette ! 0) = ''coal''" "entry_id (examplePalette ! Suc 0) = ''obsidian''"
  unfolding examplePalette_def examplePalette_eq by simp_all

lemma examplePalette_nonempty: "examplePalette \<noteq> []"
  using examplePalette_ids by auto

lemma generate_examplePixels:
  "map_sum id (\<lambda>s. (counts s, assign s)) (generate examplePalette examplePixels) =
     Inr ([(''obsidian'', 2), (''coal'', 1)],
          [Some ''obsidian'', Some ''coal'', Some ''obsidian'', None])"
  by (simp add: generate_def examplePalette_nonempty examplePixels_def rgbKey_def
        examplePalette_nearest_black examplePalette_nearest_grey examplePalette_nth_ids
        countsIncrement_def Let_def)

lemma upt_0_1: "[0..<1] = [0::nat]"
  by simp

lemma upt_0_2: "[0..<2] = [0::nat, 1]"
  by code_simp

lemma render_example:
  "map dx (snd (renderTextureMosaic obsidianOnly Map.empty
            [Some ''obsidian'', Some ''coal'', Some ''obsidian'', None] 2)) = [0, 0]
   \<and> map dy (snd (renderTextureMosaic obsidianOnly Map.empty
            [Some ''obsidian'', Some ''coal'', Some ''obsidian'', None] 2)) = [0, 16]"
  by (simp add: renderTextureMosaic_def truthyId_def loadTextureForBlock_def obsidianOnly_def
        drawCell_def cellAt_def TILE_def Let_def upt_0_2)

lemma render_example_unresolved:
  "unresolvedCells (fst (renderTextureMosaic obsidianOnly Map.empty
            [Some ''obsidian'', Some ''coal'', Some ''obsidian'', None] 2))
        [Some ''obsidian'', Some ''coal'', Some ''obsidian'', None] = 1"
  by (simp add: renderTextureMosaic_def truthyId_def loadTextureForBlock_def obsidianOnly_def
        unresolvedCells_def Let_def)

section \<open>The gradient picker\<close>

text \<open>
  With \<open>avoidDupes\<close> set, a scan that ends without error either leaves the best
  identifier as it was or sets it to a candidate outside \<open>used\<close>; it ends without error
  when every candidate outside \<open>used\<close> has a colour; and it finds a candidate when one
  is left.
\<close>

lemma truthyId_Some: "truthyId c = Some i \<longleftrightarrow> c = Some i \<and> i \<noteq> []"
  by (auto simp: truthyId_def split: option.splits)

lemma candidateScan_pick:
  "candidateScan BLOCKS mode pb True used T ids (bestId, bestScore) = Inr (bestId', bestScore')
   \<Longrightarrow> bestId' = bestId \<or> (\<exists>i\<in>set ids. bestId' = Some i \<and> i \<notin> used)"
proof (induction ids arbitrary: bestId bestScore)
  case Nil
  then show ?case by simp
next
  case (Cons i ids)
  show ?case
  proof (cases "i \<in> used")
    case True
    with Cons.prems Cons.IH[of bestId bestScore] show ?thesis by auto
  next
    case False
    with Cons.prems obtain b c where b: "map_of BLOCKS i = Some b" "avg_lab b = Some c"
      by (auto split: option.splits)
    let ?score = "distLab c T + preferencePenalty b mode pb"
    show ?thesis
    proof (cases "belowBest ?score bestScore")
      case True
      with Cons.prems False b Cons.IH[of "Some i" "Some ?score"] show ?thesis
        by (auto simp: Let_def)
    next
      case nb: False
      with Cons.prems False b Cons.IH[of bestId bestScore] show ?thesis
        by (auto simp: Let_def)
    qed
  qed
qed

lemma candidateScan_total:
  "\<forall>i\<in>set ids. i \<notin> used \<longrightarrow> labOf BLOCKS i \<noteq> None \<Longrightarrow>
   \<exists>st. candidateScan BLOCKS mode pb True used T ids (bestId, bestScore) = Inr st"
proof (induction ids arbitrary: bestId bestScore)
  case Nil
  then show ?case by simp
next
  case (Cons i ids)
  show ?case
  proof (cases "i \<in> used")
    case True
    with Cons show ?thesis by simp
  next
    case False
    with Cons.prems obtain b c where b: "map_of BLOCKS i = Some b" "avg_lab b = Some c"
      by (auto simp: labOf_def split: option.splits)
    with False Cons.IH Cons.prems show ?thesis by (simp add: Let_def)
  qed
qed

lemma candidateScan_nonempty:
  "candidateScan BLOCKS mode pb True used T ids (bestId, bestScore) = Inr (bestId', bestScore')
   \<Longrightarrow> bestScore \<noteq> None \<longrightarrow> bestId \<noteq> None
   \<Longrightarrow> bestId \<noteq> None \<or> (\<exists>i\<in>set ids. i \<notin> used)
   \<Longrightarrow> bestId' \<noteq> None"
proof (induction ids arbitrary: bestId bestScore)
  case Nil
  then show ?case by simp
next
  case (Cons i ids)
  show ?case
  proof (cases "i \<in> used")
    case True
    with Cons.prems Cons.IH[of bestId bestScore] show ?thesis by auto
  next
    case False
    with Cons.prems(1) obtain b c where b: "map_of BLOCKS i = Some b" "avg_lab b = Some c"
      by (auto split: option.splits)
    let ?score = "distLab c T + preferencePenalty b mode pb"
    show ?thesis
    proof (cases "belowBest ?score bestScore")
      case True
      with Cons.prems(1) False b Cons.IH[of "Some i" "Some ?score"] show ?thesis
        by (auto simp: Let_def)
    next
      case nb: False
      then have "bestScore \<noteq> None" by (cases bestScore) auto
      with Cons.prems(2) have "bestId \<noteq> None" by simp
      with nb Cons.prems(1,2) False b Cons.IH[of bestId bestScore] show ?thesis
        by (auto simp: Let_def)
    qed
  qed
qed

text \<open>
  The loop over the targets adds to \<open>picks\<close> only candidates outside \<open>used\<close>, each at
  most once and at most one per target. When every candidate outside \<open>used\<close> has a
  colour and a name that is not empty, every target takes one candidate as long as one is
  left, and is skipped afterwards.
\<close>

lemma pickLoop_picks:
  "pickLoop BLOCKS cands mode pb True targets (used, picks) = Inr res \<Longrightarrow>
   \<exists>new. res = picks @ new \<and> distinct new \<and> set new \<inter> used = {} \<and> set new \<subseteq> set cands
      \<and> length new \<le> length targets"
proof (induction targets arbitrary: used picks)
  case Nil
  then show ?case by simp
next
  case (Cons T targets)
  from Cons.prems obtain bestId bestScore where
    scan: "candidateScan BLOCKS mode pb True used T cands (None, None) = Inr (bestId, bestScore)"
    by (auto split: sum.splits)
  show ?case
  proof (cases "truthyId bestId")
    case None
    with Cons.prems scan have "pickLoop BLOCKS cands mode pb True targets (used, picks) = Inr res"
      by simp
    from Cons.IH[OF this] show ?thesis by auto
  next
    case (Some i)
    then have best: "bestId = Some i" by (simp add: truthyId_Some)
    with candidateScan_pick[OF scan] have i: "i \<in> set cands" "i \<notin> used" by auto
    from Cons.prems scan Some
    have "pickLoop BLOCKS cands mode pb True targets (insert i used, picks @ [i]) = Inr res"
      by simp
    from Cons.IH[OF this] obtain new where new: "res = (picks @ [i]) @ new" "distinct new"
      "set new \<inter> insert i used = {}" "set new \<subseteq> set cands" "length new \<le> length targets"
      by blast
    with i show ?thesis by (intro exI[of _ "i # new"]) auto
  qed
qed

lemma pickLoop_length:
  assumes "\<forall>i\<in>set cands. i \<notin> used \<longrightarrow> i \<noteq> [] \<and> labOf BLOCKS i \<noteq> None"
  shows "\<exists>new. pickLoop BLOCKS cands mode pb True targets (used, picks) = Inr (picks @ new)
           \<and> length new = min (length targets) (card (set cands - used))"
  using assms
proof (induction targets arbitrary: used picks)
  case Nil
  then show ?case by simp
next
  case (Cons T targets)
  have "\<forall>i\<in>set cands. i \<notin> used \<longrightarrow> labOf BLOCKS i \<noteq> None" using Cons.prems by blast
  from candidateScan_total[OF this, of mode pb T None None]
  obtain bestId bestScore where
    scan: "candidateScan BLOCKS mode pb True used T cands (None, None) = Inr (bestId, bestScore)"
    by (cases) auto
  show ?case
  proof (cases "set cands - used = {}")
    case True
    with candidateScan_pick[OF scan] have "bestId = None" by auto
    with scan have step: "pickLoop BLOCKS cands mode pb True (T # targets) (used, picks)
        = pickLoop BLOCKS cands mode pb True targets (used, picks)"
      by (simp add: truthyId_def)
    from Cons.IH[OF Cons.prems, of picks] obtain new where
      new: "pickLoop BLOCKS cands mode pb True targets (used, picks) = Inr (picks @ new)"
      "length new = min (length targets) (card (set cands - used))" by blast
    have "length new = min (length (T # targets)) (card (set cands - used))"
      using new(2) unfolding True by simp
    moreover have "pickLoop BLOCKS cands mode pb True (T # targets) (used, picks)
        = Inr (picks @ new)"
      using step new(1) by (simp only:)
    ultimately show ?thesis by blast
  next
    case False
    then have "\<exists>i\<in>set cands. i \<notin> used" by auto
    with candidateScan_nonempty[OF scan] candidateScan_pick[OF scan]
    obtain i where i: "bestId = Some i" "i \<in> set cands" "i \<notin> used" by auto
    with Cons.prems have "i \<noteq> []" by auto
    with scan i have step: "pickLoop BLOCKS cands mode pb True (T # targets) (used, picks)
        = pickLoop BLOCKS cands mode pb True targets (insert i used, picks @ [i])"
      by (simp add: truthyId_def)
    have "\<forall>j\<in>set cands. j \<notin> insert i used \<longrightarrow> j \<noteq> [] \<and> labOf BLOCKS j \<noteq> None"
      using Cons.prems by auto
    from Cons.IH[OF this, of "picks @ [i]"] obtain new where
      new: "pickLoop BLOCKS cands mode pb True targets (insert i used, picks @ [i])
              = Inr ((picks @ [i]) @ new)"
      "length new = min (length targets) (card (set cands - insert i used))" by blast
    have "card (set cands - insert i used) = card (set cands - used) - 1"
      using i by (simp add: card_Diff_insert)
    moreover have "0 < card (set cands - used)"
      using False by (simp add: card_gt_0_iff)
    ultimately have "length (i # new) = min (length (T # targets)) (card (set cands - used))"
      using new(2) by simp
    moreover have "pickLoop BLOCKS cands mode pb True (T # targets) (used, picks)
        = Inr (picks @ i # new)"
      using step new(1) by (simp del: pickLoop.simps)
    ultimately show ?thesis by blast
  qed
qed

lemma pickTransitions_avoidDupes:
  "(\<forall>picks. pickTransitions BLOCKS CANDIDATE_IDS mode preferBuilding idA idB n True = Inr picks
       \<longrightarrow> length picks \<le> n \<and> distinct picks \<and> idA \<notin> set picks \<and> idB \<notin> set picks
           \<and> set picks \<subseteq> set CANDIDATE_IDS)
   \<and> ((\<forall>i\<in>set CANDIDATE_IDS. i \<noteq> idA \<and> i \<noteq> idB \<longrightarrow> i \<noteq> [] \<and> labOf BLOCKS i \<noteq> None)
        \<and> labOf BLOCKS idA \<noteq> None \<and> labOf BLOCKS idB \<noteq> None
       \<longrightarrow> (\<exists>picks. pickTransitions BLOCKS CANDIDATE_IDS mode preferBuilding idA idB n True
                       = Inr picks
                 \<and> length picks = min n (card (set CANDIDATE_IDS - {idA, idB}))))"
proof (rule conjI)
  show "\<forall>picks. pickTransitions BLOCKS CANDIDATE_IDS mode preferBuilding idA idB n True = Inr picks
       \<longrightarrow> length picks \<le> n \<and> distinct picks \<and> idA \<notin> set picks \<and> idB \<notin> set picks
           \<and> set picks \<subseteq> set CANDIDATE_IDS"
  proof (intro allI impI)
    fix picks
    assume r: "pickTransitions BLOCKS CANDIDATE_IDS mode preferBuilding idA idB n True = Inr picks"
    show "length picks \<le> n \<and> distinct picks \<and> idA \<notin> set picks \<and> idB \<notin> set picks
             \<and> set picks \<subseteq> set CANDIDATE_IDS"
    proof (cases "labOf BLOCKS idA = None \<or> labOf BLOCKS idB = None")
      case True
      with r have "picks = []" by (auto simp: pickTransitions_def split: option.splits)
      then show ?thesis by simp
    next
      case False
      then obtain A B where "labOf BLOCKS idA = Some A" "labOf BLOCKS idB = Some B" by auto
      with r have "pickLoop BLOCKS CANDIDATE_IDS mode preferBuilding True
          (map (\<lambda>i. lerpLab A B (real i / real (n + 1))) [1..<Suc n]) ({idA, idB}, []) = Inr picks"
        by (simp add: pickTransitions_def Let_def del: upt_Suc)
      from pickLoop_picks[OF this] show ?thesis by (auto simp del: upt_Suc)
    qed
  qed
next
  show "(\<forall>i\<in>set CANDIDATE_IDS. i \<noteq> idA \<and> i \<noteq> idB \<longrightarrow> i \<noteq> [] \<and> labOf BLOCKS i \<noteq> None)
        \<and> labOf BLOCKS idA \<noteq> None \<and> labOf BLOCKS idB \<noteq> None
       \<longrightarrow> (\<exists>picks. pickTransitions BLOCKS CANDIDATE_IDS mode preferBuilding idA idB n True
                       = Inr picks
                 \<and> length picks = min n (card (set CANDIDATE_IDS - {idA, idB})))"
  proof
    assume h: "(\<forall>i\<in>set CANDIDATE_IDS. i \<noteq> idA \<and> i \<noteq> idB \<longrightarrow> i \<noteq> [] \<and> labOf BLOCKS i \<noteq> None)
          \<and> labOf BLOCKS idA \<noteq> None \<and> labOf BLOCKS idB \<noteq> None"
    then obtain A B where AB: "labOf BLOCKS idA = Some A" "labOf BLOCKS idB = Some B" by auto
    have "\<forall>i\<in>set CANDIDATE_IDS. i \<notin> {idA, idB} \<longrightarrow> i \<noteq> [] \<and> labOf BLOCKS i \<noteq> None"
      using h by auto
    from pickLoop_length[OF this, of mode preferBuilding
        "map (\<lambda>i. lerpLab A B (real i / real (n + 1))) [1..<Suc n]" "[]"] AB
    show "\<exists>picks. pickTransitions BLOCKS CANDIDATE_IDS mode preferBuilding idA idB n True = Inr picks
                   \<and> length picks = min n (card (set CANDIDATE_IDS - {idA, idB}))"
      by (simp add: pickTransitions_def Let_def del: upt_Suc)
  qed
qed

section \<open>Claims\<close>

text \<open>
  C1, as stated, fails: the scan compares the distances that \<open>distLab\<close> computes, and two
  entries at exactly equal Euclidean distance need not get equal computed distances. The
  entries \<open>a\<close> and \<open>b\<close> carry the same three components in opposite order, so that black
  is at the same Euclidean distance from both. The sums of the squares are formed in
  different orders and round differently: 1.5329709716755893 for \<open>a\<close>, 1.532970971675589
  for \<open>b\<close>. The entry \<open>b\<close>, second in palette order, is returned.
\<close>

theorem findNearestBlock_exact_tie_counterexample:
  "euclidLab (0, 0, 0) (entry_lab tieEntryA) = euclidLab (0, 0, 0) (entry_lab tieEntryB)
   \<and> distLab (0, 0, 0) (entry_lab tieEntryB) < distLab (0, 0, 0) (entry_lab tieEntryA)
   \<and> findNearestBlock [tieEntryA, tieEntryB] (0, 0, 0) = Some tieEntryB
   \<and> entry_id tieEntryA = ''a'' \<and> entry_id tieEntryB = ''b''"
  by (simp add: findNearestBlock_def tieEntryA_def tieEntryB_def distLab_tieA distLab_tieB
        del: distLab.simps)

text \<open>
  C1, amended. For every non-empty palette and every Lab colour, \<open>findNearestBlock\<close>
  returns an entry of the palette whose distance from the colour, as \<open>distLab\<close> computes
  it in double arithmetic, is least, and every entry at exactly that computed distance
  stands at the same or a later position: of two entries at equal computed distance the
  one that comes first in palette order is returned. When the palette is the output of
  \<open>buildPalette\<close>, which sorts by identifier, the returned entry has the lower (or equal)
  identifier in the collation order. The result is a function of palette and colour
  only, so repeated calls return the same entry.
\<close>

theorem findNearestBlock_first_of_ties:
  assumes "PALETTE \<noteq> []"
  shows "\<exists>i<length PALETTE. findNearestBlock PALETTE c = Some (PALETTE ! i)
      \<and> (\<forall>j<length PALETTE.
            distLab c (entry_lab (PALETTE ! i)) \<le> distLab c (entry_lab (PALETTE ! j)))
      \<and> (\<forall>j<length PALETTE.
            distLab c (entry_lab (PALETTE ! j)) = distLab c (entry_lab (PALETTE ! i))
            \<longrightarrow> i \<le> j
               \<and> (PALETTE = buildPalette collate topTextureExists BLOCKS paletteSel includeCreative
                    \<longrightarrow> collate (entry_id (PALETTE ! i)) \<le> collate (entry_id (PALETTE ! j))))"
proof -
  from findNearestBlock_scan[OF assms, of c] obtain i where i: "i < length PALETTE"
    "findNearestBlock PALETTE c = Some (PALETTE ! i)"
    "\<forall>j<length PALETTE.
       distLab c (entry_lab (PALETTE ! i)) \<le> distLab c (entry_lab (PALETTE ! j))"
    "\<forall>j<i. distLab c (entry_lab (PALETTE ! i)) < distLab c (entry_lab (PALETTE ! j))"
    by blast
  have "i \<le> j
        \<and> (PALETTE = buildPalette collate topTextureExists BLOCKS paletteSel includeCreative
             \<longrightarrow> collate (entry_id (PALETTE ! i)) \<le> collate (entry_id (PALETTE ! j)))"
    if j: "j < length PALETTE"
      and tie: "distLab c (entry_lab (PALETTE ! j)) = distLab c (entry_lab (PALETTE ! i))"
    for j
  proof -
    have le: "i \<le> j" using i(4) tie by (metis not_le_imp_less less_irrefl)
    have "collate (entry_id (PALETTE ! i)) \<le> collate (entry_id (PALETTE ! j))"
      if "PALETTE = buildPalette collate topTextureExists BLOCKS paletteSel includeCreative"
    proof -
      have "sorted (map (\<lambda>e. collate (entry_id e)) PALETTE)"
        unfolding that by (rule sorted_buildPalette)
      from sorted_nth_mono[OF this, of i j] le j show ?thesis by simp
    qed
    with le show ?thesis by blast
  qed
  with i(1,2,3) show ?thesis by blast
qed

text \<open>
  In the palette built from the example catalogue without structural filter, sorted
  \<open>coal, glass, obsidian, redstone_ore, snow, stone, torch\<close>, the colour \<open>(70, 0, 0)\<close> is at
  computed distance 10 from both \<open>glass\<close> and \<open>stone\<close>; \<open>glass\<close> is returned.
\<close>

theorem findNearestBlock_first_of_ties_witness:
  "buildPalette codepointOrder allTextures exampleBlocks (Some ''everything'') False \<noteq> []
   \<and> map_option entry_id
        (findNearestBlock
           (buildPalette codepointOrder allTextures exampleBlocks (Some ''everything'') False)
           (70, 0, 0)) = Some ''glass''"
proof -
  let ?P = "buildPalette codepointOrder allTextures exampleBlocks (Some ''everything'') False"
  have ne: "?P \<noteq> []" by (simp add: example_defs)
  have "\<exists>i<length ?P. findNearestBlock ?P (70, 0, 0) = Some (?P ! i)"
    using findNearestBlock_first_of_ties[OF ne, of "(70, 0, 0)" codepointOrder allTextures
        exampleBlocks "Some ''everything''" False] by blast
  moreover have "map_option entry_id (findNearestBlock ?P (70, 0, 0)) = Some ''glass''"
    by (simp add: example_defs findNearestBlock_def fl64_minus fl64_numeral fl64_zero
        fl64_sqrt_2200 fl64_sqrt_2600)
  ultimately show ?thesis using ne by blast
qed

text \<open>
  C2. For every generation pass that reaches the loop (the palette is not empty) over the
  \<open>sizeN * sizeN\<close> pixels that \<open>getImageData\<close> returns, the pass ends without error;
  the values of \<open>counts\<close> and the number of empty cells add up to \<open>sizeN * sizeN\<close>; a
  cell is empty exactly when its pixel has alpha 0; the count of every identifier is the
  number of cells that hold it, so that no transparent pixel is counted; and for a
  transparent pixel the renderer issues no \<open>drawImage\<close> at the cell's tile, whatever the
  images that load.
\<close>

theorem generate_counts_plus_empty:
  assumes "PALETTE \<noteq> []" and "length data = sizeN * sizeN"
  shows "\<exists>s. generate PALETTE data = Inr s
      \<and> length (assign s) = sizeN * sizeN
      \<and> sum_list (map snd (counts s)) + count_list (assign s) None = sizeN * sizeN
      \<and> (\<forall>p < sizeN * sizeN. assign s ! p = None \<longleftrightarrow> alpha (data ! p) = 0)
      \<and> (\<forall>i. (case map_of (counts s) i of None \<Rightarrow> 0 | Some k \<Rightarrow> k)
               = count_list (assign s) (Some i))
      \<and> (\<forall>x < sizeN. \<forall>y < sizeN. alpha (data ! (y * sizeN + x)) = 0 \<longrightarrow>
            (\<forall>d\<in>set (snd (renderTextureMosaic fetchImage TEX_CACHE (assign s) sizeN)).
                \<not> (dx d = x * TILE \<and> dy d = y * TILE)))"
proof -
  from generate_pass[OF assms(1), of data] obtain s where s: "generate PALETTE data = Inr s"
    "length (assign s) = length data"
    "sum_list (map snd (counts s)) + count_list (assign s) None = length data"
    "\<forall>p<length data. assign s ! p = None \<longleftrightarrow> alpha (data ! p) = 0"
    "\<forall>i. (case map_of (counts s) i of None \<Rightarrow> 0 | Some k \<Rightarrow> k) = count_list (assign s) (Some i)"
    by blast
  have "\<not> (dx d = x * TILE \<and> dy d = y * TILE)"
    if "x < sizeN" "y < sizeN" "alpha (data ! (y * sizeN + x)) = 0"
      "d \<in> set (snd (renderTextureMosaic fetchImage TEX_CACHE (assign s) sizeN))" for x y d
  proof -
    have "assign s ! (y * sizeN + x) = None"
      using s(4) that(3) cell_index_bound[OF that(1,2)] assms(2) by simp
    with transparent_not_drawn[OF _ that(1,2) _ that(4)] s(2) assms(2) show ?thesis by simp
  qed
  with s assms(2) show ?thesis by (intro exI[of _ s]) simp
qed

theorem generate_counts_plus_empty_witness:
  "examplePalette \<noteq> [] \<and> length examplePixels = 2 * 2
   \<and> map_sum id counts (generate examplePalette examplePixels)
       = Inr [(''obsidian'', 2), (''coal'', 1)]
   \<and> map_sum id assign (generate examplePalette examplePixels)
       = Inr [Some ''obsidian'', Some ''coal'', Some ''obsidian'', None]"
proof -
  have h: "examplePalette \<noteq> []" "length examplePixels = 2 * 2"
    by (simp_all add: examplePalette_nonempty examplePixels_def)
  from generate_counts_plus_empty[OF h, of noImages Map.empty]
  obtain s where "generate examplePalette examplePixels = Inr s" by blast
  with generate_examplePixels h show ?thesis by simp
qed

text \<open>
  C3, as stated, fails: \<open>counts\<close> is filled by the matching pass, before any image is
  requested, and a cell whose image later fails to load is counted all the same. One
  opaque black pixel, the example palette, no image loading: the count total is 1, the
  grid has one cell, none empty, one unresolved.
\<close>

theorem generate_one_unresolved_counterexample:
  "map_sum id counts (generate examplePalette [(0, 0, 0, 255)]) = Inr [(''obsidian'', 1)]
   \<and> map_sum id assign (generate examplePalette [(0, 0, 0, 255)]) = Inr [Some ''obsidian'']
   \<and> snd (renderTextureMosaic noImages Map.empty [Some ''obsidian''] 1) = []
   \<and> unresolvedCells (fst (renderTextureMosaic noImages Map.empty [Some ''obsidian''] 1))
        [Some ''obsidian''] = 1
   \<and> sum_list (map snd [(''obsidian'', 1::nat)])
       \<noteq> 1 * 1 - count_list [Some ''obsidian''] None
           - unresolvedCells (fst (renderTextureMosaic noImages Map.empty [Some ''obsidian''] 1))
               [Some ''obsidian'']"
  by (simp add: generate_def examplePalette_nonempty rgbKey_def
        examplePalette_nearest_black examplePalette_nth_ids countsIncrement_def Let_def
        renderTextureMosaic_def truthyId_def loadTextureForBlock_def noImages_def
        drawCell_def cellAt_def upt_0_1 unresolvedCells_def)

text \<open>
  C3, amended. For every assembled mosaic the total of the per-entry counts equals
  \<open>sizeN * sizeN\<close> minus the number of empty cells; unresolved cells (an identifier that is
  the empty string, or whose image is not in the texture cache after loading) are
  counted: the total is the number of tiles drawn plus the number of unresolved cells.
\<close>

theorem generate_counts_total:
  assumes "PALETTE \<noteq> []" and "length data = sizeN * sizeN"
  shows "\<exists>s. generate PALETTE data = Inr s
      \<and> sum_list (map snd (counts s)) = sizeN * sizeN - count_list (assign s) None
      \<and> sum_list (map snd (counts s))
          = length (snd (renderTextureMosaic fetchImage TEX_CACHE (assign s) sizeN))
            + unresolvedCells (fst (renderTextureMosaic fetchImage TEX_CACHE (assign s) sizeN))
                (assign s)"
proof -
  from generate_pass[OF assms(1), of data] obtain s where s: "generate PALETTE data = Inr s"
    "length (assign s) = length data"
    "sum_list (map snd (counts s)) + count_list (assign s) None = length data"
    by blast
  define C where "C = fst (renderTextureMosaic fetchImage TEX_CACHE (assign s) sizeN)"
  have len: "length (assign s) = sizeN * sizeN" using s(2) assms(2) by simp
  have "length (snd (renderTextureMosaic fetchImage TEX_CACHE (assign s) sizeN))
        + unresolvedCells C (assign s) + count_list (assign s) None = length (assign s)"
    unfolding render_draw_count[OF len] C_def[symmetric] unresolvedCells_def
    by (rule cells_partition)
  with s(1,3) len assms(2) show ?thesis unfolding C_def by (intro exI[of _ s]) simp
qed

text \<open>
  The example buffer with only the image of \<open>obsidian\<close> loading: three cells counted, two
  tiles drawn (at \<open>(0, 0)\<close> and \<open>(0, 16)\<close>), one cell unresolved, one empty.
\<close>

theorem generate_counts_total_witness:
  "examplePalette \<noteq> [] \<and> length examplePixels = 2 * 2
   \<and> map_sum id counts (generate examplePalette examplePixels)
       = Inr [(''obsidian'', 2), (''coal'', 1)]
   \<and> map dy (snd (renderTextureMosaic obsidianOnly Map.empty
            [Some ''obsidian'', Some ''coal'', Some ''obsidian'', None] 2)) = [0, 16]
   \<and> unresolvedCells (fst (renderTextureMosaic obsidianOnly Map.empty
            [Some ''obsidian'', Some ''coal'', Some ''obsidian'', None] 2))
        [Some ''obsidian'', Some ''coal'', Some ''obsidian'', None] = 1"
proof -
  have h: "examplePalette \<noteq> []" "length examplePixels = 2 * 2"
    by (simp_all add: examplePalette_nonempty examplePixels_def)
  from generate_counts_total[OF h, of obsidianOnly Map.empty]
  obtain s where "generate examplePalette examplePixels = Inr s" by blast
  with generate_examplePixels render_example render_example_unresolved h show ?thesis by simp
qed

text \<open>
  C4. For every catalogue block, scoring mode and \<open>preferBuilding\<close> setting, the preference
  penalty is 0 when the mode is \<open>anything\<close>, and otherwise the sum of: 6 if
  \<open>preferBuilding\<close> and the block is no building block, 5 if plantlike, 5 if redstone, 4 if
  ore, 4 if tagged transparent, 4 if tagged noisy, 8 if tagged creative-only and the mode
  is not \<open>creative\<close>. The terms add up.
\<close>

theorem preferencePenalty_sum:
  "preferencePenalty blk mode preferBuilding =
     (if mode = ''anything'' then 0
      else (if preferBuilding \<and> \<not> building_block (flagsOf blk) then 6 else 0)
         + (if plantlike (flagsOf blk) then 5 else 0)
         + (if redstone (flagsOf blk) then 5 else 0)
         + (if ore (flagsOf blk) then 4 else 0)
         + (if transparent (tagsOf blk) then 4 else 0)
         + (if noisy (tagsOf blk) then 4 else 0)
         + (if mode \<noteq> ''creative'' \<and> creative_only (tagsOf blk) then 8 else 0))"
  by (simp add: preferencePenalty_def Let_def)

text \<open>
  Redstone ore (redstone, ore, no building block) with \<open>preferBuilding\<close>: 6 + 5 + 4 in
  mode \<open>building\<close>, nothing in mode \<open>anything\<close>.
\<close>

theorem preferencePenalty_sum_witness:
  "preferencePenalty redstoneOreBlock ''building'' True = 15
   \<and> preferencePenalty redstoneOreBlock ''anything'' True = 0"
  using preferencePenalty_sum[of redstoneOreBlock "''building''" True]
        preferencePenalty_sum[of redstoneOreBlock "''anything''" True]
  by (simp add: redstoneOreBlock_def flagsOf_def tagsOf_def)

text \<open>
  C5. For every palette that passes the guard and every pixel buffer, the pass with the
  cache ends with the assignment grid and the counts of the pass that recomputes the
  nearest match for every pixel. The key is exact: two colours share a key only if they
  are the same three bytes. The cache is created inside \<open>generate\<close>, so a pass under
  another palette starts from the empty cache, and the statement holds for it as well.
\<close>

theorem generate_cache_equals_uncached:
  assumes "PALETTE \<noteq> []"
  shows "(\<exists>s. generate PALETTE data = Inr s
            \<and> uncachedPass PALETTE data ([], []) = Inr (counts s, assign s))
       \<and> (\<forall>r g b r' g' b'. rgbKey r g b = rgbKey r' g' b' \<longrightarrow> r = r' \<and> g = g' \<and> b = b')"
  using generate_uncached[OF assms] rgbKey_inj by blast

theorem generate_cache_equals_uncached_witness:
  "examplePalette \<noteq> []
   \<and> map_sum id assign (generate examplePalette examplePixels)
       = Inr [Some ''obsidian'', Some ''coal'', Some ''obsidian'', None]
   \<and> uncachedPass examplePalette examplePixels ([], [])
       = Inr ([(''obsidian'', 2), (''coal'', 1)],
              [Some ''obsidian'', Some ''coal'', Some ''obsidian'', None])"
proof -
  from generate_cache_equals_uncached[OF examplePalette_nonempty, of examplePixels]
  obtain s where "generate examplePalette examplePixels = Inr s"
    "uncachedPass examplePalette examplePixels ([], []) = Inr (counts s, assign s)" by blast
  with generate_examplePixels examplePalette_nonempty show ?thesis by simp
qed

text \<open>
  C6. The mode that the specification calls \<open>strict_solid\<close> is the branch of the palette
  builder for the value \<open>full_solid\<close>, which is also the value taken when none is
  selected. For every catalogue entry, under this mode the palette builder includes the
  entry only if it is a full block, and excludes it if it is tagged transparent or
  noisy, full block or not.
\<close>

theorem buildPalette_full_solid:
  assumes "paletteMode paletteSel = ''full_solid''" and "map_of BLOCKS i = Some b"
  shows "(i \<in> entry_id `
                set (buildPalette collate topTextureExists BLOCKS paletteSel includeCreative)
            \<longrightarrow> full_block (flagsOf b))
       \<and> (transparent (tagsOf b) \<or> noisy (tagsOf b)
            \<longrightarrow> i \<notin> entry_id `
                set (buildPalette collate topTextureExists BLOCKS paletteSel includeCreative))"
proof -
  have "full_block (flagsOf b) \<and> \<not> transparent (tagsOf b) \<and> \<not> noisy (tagsOf b)"
    if "i \<in> entry_id `
              set (buildPalette collate topTextureExists BLOCKS paletteSel includeCreative)"
  proof -
    from that obtain e j where
      "paletteEntry topTextureExists BLOCKS ''full_solid'' includeCreative j = Some e"
      "entry_id e = i"
      unfolding set_buildPalette assms(1) by blast
    with paletteEntry_id[OF this(1)] paletteEntry_full_solid[OF _ assms(2)]
    show ?thesis by blast
  qed
  then show ?thesis by blast
qed

theorem buildPalette_full_solid_witness:
  "paletteMode None = ''full_solid'' \<and> map_of exampleBlocks ''glass'' = Some glassBlock
   \<and> transparent (tagsOf glassBlock)
   \<and> ''glass'' \<notin> entry_id `
        set (buildPalette codepointOrder allTextures exampleBlocks None False)"
proof -
  have h: "paletteMode None = ''full_solid''" "map_of exampleBlocks ''glass'' = Some glassBlock"
    "transparent (tagsOf glassBlock)"
    by (simp_all add: example_defs)
  with buildPalette_full_solid[OF h(1,2), of codepointOrder allTextures False]
  show ?thesis by blast
qed

text \<open>
  C7. For every catalogue (its keys distinct, as the keys of an object are), filter
  configuration and texture check, the palette is ordered by identifier ascending in the
  collation order, holds no identifier twice, and every entry carries the average colour
  its catalogue block has. \<open>buildPalette\<close> is a function of these inputs alone: rebuilding
  with the same inputs gives the same ordered palette.
\<close>

theorem buildPalette_sorted_distinct_coloured:
  assumes "distinct (map fst BLOCKS)"
  shows "sorted (map (\<lambda>e. collate (entry_id e))
                  (buildPalette collate topTextureExists BLOCKS paletteSel includeCreative))
       \<and> distinct (map entry_id
                  (buildPalette collate topTextureExists BLOCKS paletteSel includeCreative))
       \<and> (\<forall>e\<in>set (buildPalette collate topTextureExists BLOCKS paletteSel includeCreative).
             \<exists>b. map_of BLOCKS (entry_id e) = Some b \<and> avg_lab b = Some (entry_lab e))"
proof (intro conjI ballI)
  show "sorted (map (\<lambda>e. collate (entry_id e))
                  (buildPalette collate topTextureExists BLOCKS paletteSel includeCreative))"
    by (rule sorted_buildPalette)
  show "distinct (map entry_id
                  (buildPalette collate topTextureExists BLOCKS paletteSel includeCreative))"
    using assms by (rule distinct_buildPalette)
next
  fix e
  assume "e \<in> set (buildPalette collate topTextureExists BLOCKS paletteSel includeCreative)"
  then obtain i where
    i: "paletteEntry topTextureExists BLOCKS (paletteMode paletteSel) includeCreative i = Some e"
    unfolding set_buildPalette by blast
  from paletteEntry_lab[OF i] paletteEntry_id[OF i]
  show "\<exists>b. map_of BLOCKS (entry_id e) = Some b \<and> avg_lab b = Some (entry_lab e)" by simp
qed

theorem buildPalette_sorted_distinct_coloured_witness:
  "distinct (map fst exampleBlocks)
   \<and> map entry_id (buildPalette codepointOrder allTextures exampleBlocks None False)
       = [''coal'', ''obsidian'', ''redstone_ore'', ''snow'', ''stone'']"
proof -
  have d: "distinct (map fst exampleBlocks)" by (simp add: exampleBlocks_def)
  have "map entry_id (buildPalette codepointOrder allTextures exampleBlocks None False)
       = [''coal'', ''obsidian'', ''redstone_ore'', ''snow'', ''stone'']"
    by (simp add: example_defs)
  with d buildPalette_sorted_distinct_coloured[OF d, of codepointOrder allTextures None False]
  show ?thesis by blast
qed

text \<open>
  C8. The claim promises a sequence for every candidate set. The scan reads
  \<open>BLOCKS[id].avg_lab\<close> of every candidate that is not excluded and hands it to
  \<open>distLab\<close> unchecked, although the same function checks the colours of the two
  endpoints and the palette builder skips a block without colour. With the endpoints
  \<open>stone\<close> and \<open>coal\<close> and the candidate \<open>barrier\<close>, a catalogue block without average
  colour, the call raises a TypeError and returns no sequence. (For candidates that all
  have a colour the claim holds: \<open>pickTransitions_avoidDupes\<close>.)
\<close>

theorem pickTransitions_colourless_candidate:
  "labOf colourlessBlocks ''stone'' = Some (60, 0, 0)
   \<and> labOf colourlessBlocks ''coal'' = Some (5, 0, 0)
   \<and> map_of colourlessBlocks ''barrier'' = Some barrierBlock
   \<and> avg_lab barrierBlock = None
   \<and> pickTransitions colourlessBlocks [''stone'', ''coal'', ''barrier''] ''building'' False
        ''stone'' ''coal'' 1 True = Inl TypeError"
  by (simp add: pickTransitions_def labOf_def colourlessBlocks_def stoneBlock_def coalBlock_def
        barrierBlock_def)

text \<open>
  C9. \<open>rgbToLab255\<close> reads nothing but its three bytes, so that equal bytes give equal
  output. On the reference colours: black is \<open>(0, 0, 0)\<close>; white is within
  \<open>1 / 10000\<close> of \<open>(100, 0, 0)\<close> in each component (the middle row of the matrix sums to
  \<open>1.0000001\<close>, so white is not exactly \<open>(100, 0, 0)\<close>).
\<close>

theorem rgbToLab255_reference_values:
  "rgbToLab255 0 0 0 = (0, 0, 0)
   \<and> (case rgbToLab255 255 255 255 of
        (L, a, b) \<Rightarrow> \<bar>L - 100\<bar> < 1 / 10000 \<and> \<bar>a - 0\<bar> < 1 / 10000 \<and> \<bar>b - 0\<bar> < 1 / 10000)"
  using fLab_white_Y by (simp add: rgbToLab255_black rgbToLab255_white abs_less_iff)

text \<open>
  C10. For every count, candidate list and setting, \<open>pickTransitions\<close> returns the empty
  sequence, raising no error, whenever an endpoint is absent from the catalogue or its
  block has no average colour. The candidate list is arbitrary, so the result does not
  depend on any candidate, not even on one whose lookup would raise.
\<close>

theorem pickTransitions_missing_endpoint:
  assumes "map_of BLOCKS idA = None \<or> (\<exists>b. map_of BLOCKS idA = Some b \<and> avg_lab b = None)
         \<or> map_of BLOCKS idB = None \<or> (\<exists>b. map_of BLOCKS idB = Some b \<and> avg_lab b = None)"
  shows "pickTransitions BLOCKS CANDIDATE_IDS mode preferBuilding idA idB n avoidDupes = Inr []"
  using assms by (auto simp: pickTransitions_def labOf_def split: option.splits)

theorem pickTransitions_missing_endpoint_witness:
  "map_of exampleBlocks ''dirt'' = None
   \<and> pickTransitions exampleBlocks [''ghost''] ''building'' True ''dirt'' ''stone'' 3 True
       = Inr []"
proof -
  have h: "map_of exampleBlocks ''dirt'' = None" by (simp add: exampleBlocks_def)
  then show ?thesis
    using pickTransitions_missing_endpoint[of exampleBlocks "''dirt''" "''stone''"
        "[''ghost'']" "''building''" True 3 True]
    by blast
qed

end
